theory Spec2Isabelle
  imports Complex_Main
begin

section \<open>Values exchanged with the catalog service\<close>

text \<open>
  \<open>requests.get(url).json()\<close> yields a decoded JSON document. A Python \<open>str\<close> is a
  \<open>string\<close> here; text outside ASCII is carried in its UTF-8 encoding. A JSON object
  is an association list in insertion order, its keys taken to be distinct as those of
  a decoded dict are. JSON numbers are integers in this model:
  every operation \<open>fetch_artist_metadata\<close> applies to a number (truth test, subscript,
  \<open>len\<close>, iteration, \<open>.get\<close>) treats a float the way it treats an integer.
\<close>

datatype json =
    JNull
  | JBool bool
  | JNum int
  | JStr string
  | JArr "json list"
  | JObj "(string \<times> json) list"

text \<open>
  The exceptions that the body of \<open>fetch_artist_metadata\<close> can meet, all of them
  subclasses of \<open>Exception\<close>. \<open>RequestError\<close> stands for whatever \<open>requests.get\<close>
  or \<open>.json()\<close> raises (connection failure, a body that is not JSON).
\<close>

datatype py_error = RequestError | AttributeError | TypeError | KeyError | IndexError

fun try_bind :: "'e + 'a \<Rightarrow> ('a \<Rightarrow> 'e + 'b) \<Rightarrow> 'e + 'b" where
  "try_bind (Inl e) f = Inl e"
| "try_bind (Inr a) f = f a"

text \<open>Python's truth test, as \<open>not x\<close> and \<open>if x\<close> apply it.\<close>

fun truthy :: "json \<Rightarrow> bool" where
  "truthy JNull = False"
| "truthy (JBool b) = b"
| "truthy (JNum n) = (n \<noteq> 0)"
| "truthy (JStr s) = (s \<noteq> [])"
| "truthy (JArr xs) = (xs \<noteq> [])"
| "truthy (JObj kvs) = (kvs \<noteq> [])"

text \<open>\<open>x.get(k, default)\<close>: only a dict has the method.\<close>

fun dict_get :: "json \<Rightarrow> string \<Rightarrow> json \<Rightarrow> py_error + json" where
  "dict_get (JObj kvs) k dflt = Inr (case map_of kvs k of None \<Rightarrow> dflt | Some v \<Rightarrow> v)"
| "dict_get _ k dflt = Inl AttributeError"

text \<open>\<open>x['k']\<close> with a string key.\<close>

fun subscript_key :: "json \<Rightarrow> string \<Rightarrow> py_error + json" where
  "subscript_key (JObj kvs) k = (case map_of kvs k of None \<Rightarrow> Inl KeyError | Some v \<Rightarrow> Inr v)"
| "subscript_key _ k = Inl TypeError"

text \<open>\<open>x[0]\<close>. The keys of a decoded JSON object are strings, so \<open>0\<close> is never one.\<close>

fun subscript_0 :: "json \<Rightarrow> py_error + json" where
  "subscript_0 (JArr []) = Inl IndexError"
| "subscript_0 (JArr (x # xs)) = Inr x"
| "subscript_0 (JStr []) = Inl IndexError"
| "subscript_0 (JStr (c # cs)) = Inr (JStr [c])"
| "subscript_0 (JObj kvs) = Inl KeyError"
| "subscript_0 _ = Inl TypeError"

text \<open>
  \<open>len(x)\<close>. For a \<open>str\<close> Python counts code points and the model bytes; the two
  agree on whether the string is empty, and \<open>fetch_artist_metadata\<close> fails on every
  non-empty string that stands where a list was expected, whatever its length.
\<close>

fun py_len :: "json \<Rightarrow> py_error + nat" where
  "py_len (JArr xs) = Inr (length xs)"
| "py_len (JStr s) = Inr (length s)"
| "py_len (JObj kvs) = Inr (length kvs)"
| "py_len _ = Inl TypeError"

text \<open>
  The elements a \<open>for\<close> loop or a comprehension visits: the items of a list, the
  one-character strings of a \<open>str\<close>, the keys of a dict.
\<close>

fun py_iter :: "json \<Rightarrow> py_error + json list" where
  "py_iter (JArr xs) = Inr xs"
| "py_iter (JStr s) = Inr (map (\<lambda>c. JStr [c]) s)"
| "py_iter (JObj kvs) = Inr (map (\<lambda>kv. JStr (fst kv)) kvs)"
| "py_iter _ = Inl TypeError"

text \<open>\<open>[t['title'] for t in tracks_data]\<close>: the first failing element aborts.\<close>

fun titles_of :: "json list \<Rightarrow> py_error + json list" where
  "titles_of [] = Inr []"
| "titles_of (t # ts) =
     try_bind (subscript_key t ''title'') (\<lambda>v.
     try_bind (titles_of ts) (\<lambda>vs. Inr (v # vs)))"

definition track_titles :: "json \<Rightarrow> py_error + json list" where
  "track_titles tracks_data = try_bind (py_iter tracks_data) titles_of"

section \<open>Random sampling\<close>

text \<open>
  \<open>random.sample(population, k)\<close> belongs to the Python library. Its outcome is taken
  as a parameter: a \<open>sampler\<close> gives, for a population of \<open>n\<close> items and a sample size
  \<open>k\<close>, the positions it picked, in the order picked. The library's contract (a list of
  \<open>k\<close> items from \<open>k\<close> different positions of the population) is \<open>sampler_ok\<close>. A
  dict is not a sequence and is refused with \<open>TypeError\<close>.
\<close>

type_synonym sampler = "nat \<Rightarrow> nat \<Rightarrow> nat list"

definition sampler_ok :: "sampler \<Rightarrow> bool" where
  "sampler_ok rng \<longleftrightarrow>
     (\<forall>n k. k \<le> n \<longrightarrow> length (rng n k) = k \<and> distinct (rng n k) \<and> (\<forall>i \<in> set (rng n k). i < n))"

fun random_sample :: "sampler \<Rightarrow> json \<Rightarrow> nat \<Rightarrow> py_error + json" where
  "random_sample rng (JArr xs) k = Inr (JArr (map (\<lambda>i. xs ! i) (rng (length xs) k)))"
| "random_sample rng (JStr s) k = Inr (JArr (map (\<lambda>i. JStr [s ! i]) (rng (length s) k)))"
| "random_sample rng _ k = Inl TypeError"

text \<open>Lines 50 to 53: the choice of \<open>related_data\<close>.\<close>

definition select_related :: "sampler \<Rightarrow> json \<Rightarrow> py_error + json" where
  "select_related rng related_data_all =
     try_bind (py_len related_data_all) (\<lambda>n.
       if n > 5 then random_sample rng related_data_all 5
       else Inr related_data_all)"

section \<open>The catalog service and the request trace\<close>

text \<open>
  Every \<open>requests.get(url).json()\<close> is one exchange: the URL asked and what came back
  (a decoded document, or an exception). The service is any function from the exchanges
  so far and the URL asked to an answer, so the same URL may be answered differently
  each time. \<open>py_str\<close> is Python's \<open>str()\<close> on a decoded value, which the f-strings
  apply to the ids and names they embed; it is a parameter.
\<close>

type_synonym url = string
type_synonym exchange = "url \<times> (py_error + json)"
type_synonym catalog = "exchange list \<Rightarrow> url \<Rightarrow> py_error + json"
type_synonym formatter = "json \<Rightarrow> string"

definition requests_get_json :: "catalog \<Rightarrow> exchange list \<Rightarrow> url \<Rightarrow> (py_error + json) \<times> exchange list" where
  "requests_get_json cat tr u = (cat tr u, tr @ [(u, cat tr u)])"

definition search_url :: "string \<Rightarrow> url" where
  "search_url artist_name = ''https://api.deezer.com/search/artist?q='' @ artist_name"

definition top_url :: "formatter \<Rightarrow> json \<Rightarrow> string \<Rightarrow> url" where
  "top_url py_str artist_id limit_arg =
     ''https://api.deezer.com/artist/'' @ py_str artist_id @ ''/top?limit='' @ limit_arg"

definition related_url :: "formatter \<Rightarrow> json \<Rightarrow> url" where
  "related_url py_str artist_id =
     ''https://api.deezer.com/artist/'' @ py_str artist_id @ ''/related?limit=20''"

section \<open>fetch-artist-metadata\<close>

record related_artist =
  name :: json
  tracks :: "json list"

record artist_metadata =
  source_artist :: json
  source_tracks :: "json list"
  similar :: "related_artist list"

text \<open>
  One top-tracks request and the reading of its answer:
  \<open>requests.get(url).json().get('data', [])\<close> followed by the comprehension over
  \<open>t['title']\<close>.
\<close>

definition get_titles :: "catalog \<Rightarrow> exchange list \<Rightarrow> url \<Rightarrow> (py_error + json list) \<times> exchange list" where
  "get_titles cat tr u =
     (case requests_get_json cat tr u of (r, tr') \<Rightarrow>
        (try_bind r (\<lambda>j. try_bind (dict_get j ''data'' (JArr [])) track_titles), tr'))"

text \<open>
  Lines 55 to 65, the loop over \<open>related_data\<close>; \<open>acc\<close> is \<open>similar_artists_info\<close>.
  The order inside one round is the source's: \<open>rel_artist['id']\<close>, the request, the
  titles, and \<open>rel_artist['name']\<close> last, when the entry is built.
\<close>

fun fetch_similar ::
  "formatter \<Rightarrow> catalog \<Rightarrow> json list \<Rightarrow> related_artist list \<Rightarrow> exchange list
     \<Rightarrow> (py_error + related_artist list) \<times> exchange list" where
  "fetch_similar py_str cat [] acc tr = (Inr acc, tr)"
| "fetch_similar py_str cat (rel_artist # rest) acc tr =
     (case subscript_key rel_artist ''id'' of
        Inl e \<Rightarrow> (Inl e, tr)
      | Inr r_id \<Rightarrow>
          (case get_titles cat tr (top_url py_str r_id ''2'') of
             (Inl e, tr') \<Rightarrow> (Inl e, tr')
           | (Inr r_tracks, tr') \<Rightarrow>
               (case subscript_key rel_artist ''name'' of
                  Inl e \<Rightarrow> (Inl e, tr')
                | Inr nm \<Rightarrow>
                    fetch_similar py_str cat rest
                      (acc @ [\<lparr>name = nm, tracks = r_tracks\<rparr>]) tr')))"

text \<open>Lines 36 to 38: the first search result and its two fields.\<close>

definition first_artist :: "json \<Rightarrow> py_error + json \<times> json" where
  "first_artist response =
     try_bind (subscript_key response ''data'') (\<lambda>d.
     try_bind (subscript_0 d) (\<lambda>artist_obj.
     try_bind (subscript_key artist_obj ''id'') (\<lambda>artist_id.
     try_bind (subscript_key artist_obj ''name'') (\<lambda>real_name.
       Inr (artist_id, real_name)))))"

text \<open>
  The body of the \<open>try\<close> block. \<open>Inr None\<close> is the \<open>return None\<close> of line 34,
  \<open>Inl e\<close> an exception on its way to the handler.
\<close>

definition fetch_try ::
  "formatter \<Rightarrow> catalog \<Rightarrow> sampler \<Rightarrow> string
     \<Rightarrow> (py_error + artist_metadata option) \<times> exchange list" where
  "fetch_try py_str cat rng artist_name =
     (case requests_get_json cat [] (search_url artist_name) of
        (Inl e, tr1) \<Rightarrow> (Inl e, tr1)
      | (Inr response, tr1) \<Rightarrow>
     (case dict_get response ''data'' JNull of
        Inl e \<Rightarrow> (Inl e, tr1)
      | Inr found \<Rightarrow>
     if \<not> truthy found then (Inr None, tr1) else
     (case first_artist response of
        Inl e \<Rightarrow> (Inl e, tr1)
      | Inr (artist_id, real_name) \<Rightarrow>
     (case get_titles cat tr1 (top_url py_str artist_id ''4'') of
        (Inl e, tr2) \<Rightarrow> (Inl e, tr2)
      | (Inr src_tracks, tr2) \<Rightarrow>
     (case requests_get_json cat tr2 (related_url py_str artist_id) of
        (r3, tr3) \<Rightarrow>
     (case try_bind r3 (\<lambda>j.
             try_bind (dict_get j ''data'' (JArr [])) (\<lambda>related_data_all.
             try_bind (select_related rng related_data_all) py_iter)) of
        Inl e \<Rightarrow> (Inl e, tr3)
      | Inr related_data \<Rightarrow>
     (case fetch_similar py_str cat related_data [] tr3 of
        (Inl e, tr4) \<Rightarrow> (Inl e, tr4)
      | (Inr similar_artists_info, tr4) \<Rightarrow>
          (Inr (Some \<lparr>source_artist = real_name,
                      source_tracks = src_tracks,
                      similar = similar_artists_info\<rparr>), tr4))))))))"

text \<open>
  The function itself: \<open>except Exception\<close> turns every exception into \<open>None\<close>. The
  handler's \<open>print\<close> writes to standard output only and is left out. The second
  component is the list of exchanges the call made, oldest first.
\<close>

definition fetch_artist_metadata ::
  "formatter \<Rightarrow> catalog \<Rightarrow> sampler \<Rightarrow> string \<Rightarrow> artist_metadata option \<times> exchange list" where
  "fetch_artist_metadata py_str cat rng artist_name =
     (case fetch_try py_str cat rng artist_name of
        (Inl e, tr) \<Rightarrow> (None, tr)
      | (Inr result, tr) \<Rightarrow> (result, tr))"

section \<open>Text constants\<close>

text \<open>
  The literals of the source are Russian text. Each is given by its UTF-8 bytes, so
  that the theory stays in ASCII.
\<close>

definition utf8 :: "nat list \<Rightarrow> string" where
  "utf8 bytes = map char_of bytes"

text \<open>
  Line 87 to 88: the text of the system message up to the agent name (a line break,
  indentation, and the Russian for "ROLE: ").
\<close>

definition system_head :: string where
  "system_head = utf8
     [10, 32, 32, 32, 32, 32, 32, 32, 32, 32, 32, 32, 32, 32, 32, 32, 32, 208, 160,
       208, 158, 208, 155, 208, 172, 58, 32]"

text \<open>
  Line 88 to 89: between name and role (line break, indentation, the Russian for "TASK:
  ").
\<close>

definition system_mid :: string where
  "system_mid = utf8
     [10, 32, 32, 32, 32, 32, 32, 32, 32, 32, 32, 32, 32, 32, 32, 32, 32, 208, 151,
       208, 144, 208, 148, 208, 144, 208, 167, 208, 144, 58, 32]"

text \<open>
  Line 89 to 91: after the role: the line of the three fixed constraints (Russian
  language, Markdown markup, work strictly from the context) and the closing line break
  and indentation.
\<close>

definition system_tail :: string where
  "system_tail = utf8
     [10, 32, 32, 32, 32, 32, 32, 32, 32, 32, 32, 32, 32, 32, 32, 32, 32, 208, 158,
       208, 147, 208, 160, 208, 144, 208, 157, 208, 152, 208, 167, 208, 149, 208, 157,
       208, 152, 208, 175, 58, 32, 208, 160, 209, 131, 209, 129, 209, 129, 208, 186,
       208, 184, 208, 185, 32, 209, 143, 208, 183, 209, 139, 208, 186, 44, 32, 77, 97,
       114, 107, 100, 111, 119, 110, 32, 209, 128, 208, 176, 208, 183, 208, 188, 208,
       181, 209, 130, 208, 186, 208, 176, 44, 32, 209, 128, 208, 176, 208, 177, 208,
       190, 209, 130, 208, 176, 32, 209, 129, 209, 130, 209, 128, 208, 190, 208, 179,
       208, 190, 32, 208, 191, 208, 190, 32, 208, 186, 208, 190, 208, 189, 209, 130,
       208, 181, 208, 186, 209, 129, 209, 130, 209, 131, 46, 10, 32, 32, 32, 32, 32, 32,
       32, 32, 32, 32, 32, 32, 32, 32, 32, 32]"

text \<open>
  Line 95: the head of the user message, the Russian for "DATA CONTEXT:" and a line break.
\<close>

definition user_head :: string where
  "user_head = utf8
     [208, 154, 208, 158, 208, 157, 208, 162, 208, 149, 208, 154, 208, 161, 208, 162,
       32, 208, 148, 208, 144, 208, 157, 208, 157, 208, 171, 208, 165, 58, 10]"

text \<open>Line 104: the Russian for "Agent execution error: ".\<close>

definition agent_error_prefix :: string where
  "agent_error_prefix = utf8
     [208, 158, 209, 136, 208, 184, 208, 177, 208, 186, 208, 176, 32, 208, 178, 209,
       139, 208, 191, 208, 190, 208, 187, 208, 189, 208, 181, 208, 189, 208, 184, 209,
       143, 32, 208, 176, 208, 179, 208, 181, 208, 189, 209, 130, 208, 176, 58, 32]"

text \<open>Line 21.\<close>

definition MODEL_REPO_ID :: string where
  "MODEL_REPO_ID = utf8
     [81, 119, 101, 110, 47, 81, 119, 101, 110, 50, 46, 53, 45, 55, 50, 66, 45, 73,
       110, 115, 116, 114, 117, 99, 116]"

text \<open>The name of agent 1.\<close>

definition agent1_name :: string where
  "agent1_name = utf8
     [208, 144, 208, 179, 208, 181, 208, 189, 209, 130, 32, 49, 32, 40, 208, 144, 208,
       189, 208, 176, 208, 187, 208, 184, 208, 183, 208, 176, 209, 130, 208, 190, 209,
       128, 32, 208, 161, 209, 133, 208, 190, 208, 180, 209, 129, 209, 130, 208, 178,
       208, 176, 41]"

text \<open>The role of agent 1.\<close>

definition agent1_role :: string where
  "agent1_role = utf8
     [208, 159, 209, 128, 208, 190, 208, 176, 208, 189, 208, 176, 208, 187, 208, 184,
       208, 183, 208, 184, 209, 128, 209, 131, 208, 185, 32, 209, 129, 208, 191, 208,
       184, 209, 129, 208, 190, 208, 186, 32, 209, 129, 208, 178, 209, 143, 208, 183,
       208, 176, 208, 189, 208, 189, 209, 139, 209, 133, 32, 208, 184, 209, 129, 208,
       191, 208, 190, 208, 187, 208, 189, 208, 184, 209, 130, 208, 181, 208, 187, 208,
       181, 208, 185, 46, 32, 208, 158, 208, 177, 209, 138, 209, 143, 209, 129, 208,
       189, 208, 184, 32, 209, 129, 209, 130, 208, 184, 208, 187, 208, 184, 209, 129,
       209, 130, 208, 184, 209, 135, 208, 181, 209, 129, 208, 186, 208, 184, 208, 181,
       32, 209, 129, 208, 178, 209, 143, 208, 183, 208, 184, 32, 208, 188, 208, 181,
       208, 182, 208, 180, 209, 131, 32, 209, 134, 208, 181, 208, 187, 208, 181, 208,
       178, 209, 139, 208, 188, 32, 208, 176, 209, 128, 209, 130, 208, 184, 209, 129,
       209, 130, 208, 190, 208, 188, 32, 208, 184, 32, 209, 129, 208, 178, 209, 143,
       208, 183, 208, 176, 208, 189, 208, 189, 209, 139, 208, 188, 208, 184, 32, 209,
       129, 209, 131, 209, 137, 208, 189, 208, 190, 209, 129, 209, 130, 209, 143, 208,
       188, 208, 184, 46]"

text \<open>The name of agent 2.\<close>

definition agent2_name :: string where
  "agent2_name = utf8
     [208, 144, 208, 179, 208, 181, 208, 189, 209, 130, 32, 50, 32, 40, 208, 154, 208,
       190, 208, 188, 208, 191, 208, 190, 208, 183, 208, 184, 209, 130, 208, 190, 209,
       128, 32, 208, 159, 208, 187, 208, 181, 208, 185, 208, 187, 208, 184, 209, 129,
       209, 130, 208, 176, 41]"

text \<open>The role of agent 2.\<close>

definition agent2_role :: string where
  "agent2_role = utf8
     [208, 161, 209, 132, 208, 190, 209, 128, 208, 188, 208, 184, 209, 128, 209, 131,
       208, 185, 32, 208, 181, 208, 180, 208, 184, 208, 189, 209, 139, 208, 185, 32,
       209, 129, 208, 191, 208, 184, 209, 129, 208, 190, 208, 186, 32, 209, 130, 209,
       128, 208, 181, 208, 186, 208, 190, 208, 178, 32, 208, 189, 208, 176, 32, 208,
       190, 209, 129, 208, 189, 208, 190, 208, 178, 208, 181, 32, 208, 186, 208, 190,
       208, 189, 209, 130, 208, 181, 208, 186, 209, 129, 209, 130, 208, 176, 46, 32,
       208, 164, 208, 190, 209, 128, 208, 188, 208, 176, 209, 130, 58, 32, 39, 208, 152,
       209, 129, 208, 191, 208, 190, 208, 187, 208, 189, 208, 184, 209, 130, 208, 181,
       208, 187, 209, 140, 32, 45, 32, 208, 162, 209, 128, 208, 181, 208, 186, 39, 46,
       32, 208, 157, 208, 181, 32, 208, 179, 208, 181, 208, 189, 208, 181, 209, 128,
       208, 184, 209, 128, 209, 131, 208, 185, 32, 208, 189, 208, 181, 209, 129, 209,
       131, 209, 137, 208, 181, 209, 129, 209, 130, 208, 178, 209, 131, 209, 142, 209,
       137, 208, 184, 208, 181, 32, 208, 180, 208, 176, 208, 189, 208, 189, 209, 139,
       208, 181, 46]"

text \<open>The name of agent 3.\<close>

definition agent3_name :: string where
  "agent3_name = utf8
     [208, 144, 208, 179, 208, 181, 208, 189, 209, 130, 32, 51, 32, 40, 208, 154, 208,
       187, 208, 176, 209, 129, 209, 129, 208, 184, 209, 132, 208, 184, 208, 186, 208,
       176, 209, 130, 208, 190, 209, 128, 41]"

text \<open>The role of agent 3.\<close>

definition agent3_role :: string where
  "agent3_role = utf8
     [208, 160, 208, 176, 208, 183, 208, 180, 208, 181, 208, 187, 208, 184, 32, 209,
       129, 208, 191, 208, 184, 209, 129, 208, 190, 208, 186, 32, 208, 189, 208, 176,
       32, 208, 180, 208, 178, 208, 181, 32, 208, 186, 208, 190, 208, 189, 209, 130,
       209, 128, 208, 176, 209, 129, 209, 130, 208, 189, 209, 139, 208, 181, 32, 208,
       186, 208, 176, 209, 130, 208, 181, 208, 179, 208, 190, 209, 128, 208, 184, 208,
       184, 32, 208, 189, 208, 176, 209, 129, 209, 130, 209, 128, 208, 190, 208, 181,
       208, 189, 208, 184, 209, 143, 46, 32, 208, 146, 209, 139, 208, 178, 208, 181,
       208, 180, 208, 184, 32, 208, 190, 209, 130, 209, 129, 208, 190, 209, 128, 209,
       130, 208, 184, 209, 128, 208, 190, 208, 178, 208, 176, 208, 189, 208, 189, 209,
       139, 208, 181, 32, 209, 129, 208, 191, 208, 184, 209, 129, 208, 186, 208, 184,
       32, 208, 191, 208, 190, 208, 180, 32, 208, 183, 208, 176, 208, 179, 208, 190,
       208, 187, 208, 190, 208, 178, 208, 186, 208, 176, 208, 188, 208, 184, 46]"

text \<open>The name of agent 4.\<close>

definition agent4_name :: string where
  "agent4_name = utf8
     [208, 144, 208, 179, 208, 181, 208, 189, 209, 130, 32, 52, 32, 40, 68, 105, 115,
       99, 111, 118, 101, 114, 121, 32, 69, 110, 103, 105, 110, 101, 41]"

text \<open>The role of agent 4.\<close>

definition agent4_role :: string where
  "agent4_role = utf8
     [10, 32, 32, 32, 32, 32, 32, 32, 32, 32, 32, 32, 32, 49, 46, 32, 208, 159, 209,
       128, 208, 181, 208, 180, 208, 187, 208, 190, 208, 182, 208, 184, 32, 51, 32, 208,
       157, 208, 158, 208, 146, 208, 171, 208, 165, 32, 209, 130, 209, 128, 208, 181,
       208, 186, 208, 176, 32, 208, 190, 209, 130, 32, 208, 180, 209, 128, 209, 131,
       208, 179, 208, 184, 209, 133, 32, 208, 184, 209, 129, 208, 191, 208, 190, 208,
       187, 208, 189, 208, 184, 209, 130, 208, 181, 208, 187, 208, 181, 208, 185, 32,
       40, 208, 186, 208, 190, 209, 130, 208, 190, 209, 128, 209, 139, 209, 133, 32,
       208, 189, 208, 181, 209, 130, 32, 208, 178, 32, 209, 129, 208, 191, 208, 184,
       209, 129, 208, 186, 208, 181, 41, 46, 10, 32, 32, 32, 32, 32, 32, 32, 32, 32, 32,
       32, 32]"

text \<open>Line 122: the warning shown while no token is given.\<close>

definition token_warning :: string where
  "token_warning = utf8
     [208, 158, 208, 182, 208, 184, 208, 180, 208, 176, 208, 189, 208, 184, 208, 181,
       32, 209, 130, 208, 190, 208, 186, 208, 181, 208, 189, 208, 176, 32, 208, 176,
       208, 178, 209, 130, 208, 190, 209, 128, 208, 184, 208, 183, 208, 176, 209, 134,
       208, 184, 208, 184, 46, 46, 46]"

text \<open>Line 140: the label of the status box.\<close>

definition status_label :: string where
  "status_label = utf8
     [208, 161, 208, 184, 209, 129, 209, 130, 208, 181, 208, 188, 208, 176, 58, 32,
       208, 159, 208, 190, 208, 187, 209, 131, 209, 135, 208, 181, 208, 189, 208, 184,
       208, 181, 32, 208, 188, 208, 181, 209, 130, 208, 176, 208, 180, 208, 176, 208,
       189, 208, 189, 209, 139, 209, 133, 32, 208, 184, 208, 183, 32, 208, 178, 208,
       189, 208, 181, 209, 136, 208, 189, 208, 181, 208, 179, 208, 190, 32, 65, 80, 73,
       46, 46, 46]"

text \<open>
  Line 143: the head of the success text, the Russian for "Target object identified: ".
\<close>

definition identified_head :: string where
  "identified_head = utf8
     [208, 166, 208, 181, 208, 187, 208, 181, 208, 178, 208, 190, 208, 185, 32, 208,
       190, 208, 177, 209, 138, 208, 181, 208, 186, 209, 130, 32, 208, 184, 208, 180,
       208, 181, 208, 189, 209, 130, 208, 184, 209, 132, 208, 184, 209, 134, 208, 184,
       209, 128, 208, 190, 208, 178, 208, 176, 208, 189, 58, 32]"

text \<open>Line 144: the Russian for "Data collection finished".\<close>

definition status_complete_label :: string where
  "status_complete_label = utf8
     [208, 161, 208, 177, 208, 190, 209, 128, 32, 208, 180, 208, 176, 208, 189, 208,
       189, 209, 139, 209, 133, 32, 208, 183, 208, 176, 208, 178, 208, 181, 209, 128,
       209, 136, 208, 181, 208, 189]"

text \<open>Line 146: the Russian for "Data collection error".\<close>

definition status_error_label :: string where
  "status_error_label = utf8
     [208, 158, 209, 136, 208, 184, 208, 177, 208, 186, 208, 176, 32, 209, 129, 208,
       177, 208, 190, 209, 128, 208, 176, 32, 208, 180, 208, 176, 208, 189, 208, 189,
       209, 139, 209, 133]"

text \<open>Line 147: the Russian for "Artist not found."\<close>

definition artist_not_found :: string where
  "artist_not_found = utf8
     [208, 152, 209, 129, 208, 191, 208, 190, 208, 187, 208, 189, 208, 184, 209, 130,
       208, 181, 208, 187, 209, 140, 32, 208, 189, 208, 181, 32, 208, 189, 208, 176,
       208, 185, 208, 180, 208, 181, 208, 189, 46]"

text \<open>Line 150: the Russian for "TARGET ENTITY: ".\<close>

definition context_head :: string where
  "context_head = utf8
     [208, 166, 208, 149, 208, 155, 208, 149, 208, 146, 208, 144, 208, 175, 32, 208,
       161, 208, 163, 208, 169, 208, 157, 208, 158, 208, 161, 208, 162, 208, 172, 58, 32]"

text \<open>Line 150: " (Top tracks: ".\<close>

definition context_top :: string where
  "context_top = utf8
     [32, 40, 208, 162, 208, 190, 208, 191, 45, 209, 130, 209, 128, 208, 181, 208, 186,
       208, 184, 58, 32]"

text \<open>Line 151: the Russian for "RELATED ENTITIES:" and a line break.\<close>

definition context_related :: string where
  "context_related = utf8
     [208, 161, 208, 146, 208, 175, 208, 151, 208, 144, 208, 157, 208, 157, 208, 171,
       208, 149, 32, 208, 161, 208, 163, 208, 169, 208, 157, 208, 158, 208, 161, 208,
       162, 208, 152, 58, 10]"

text \<open>Line 153: " (Tracks: ".\<close>

definition context_tracks :: string where
  "context_tracks = utf8
     [32, 40, 208, 162, 209, 128, 208, 181, 208, 186, 208, 184, 58, 32]"

text \<open>Line 205.\<close>

definition discovery_label :: string where
  "discovery_label = utf8
     [208, 144, 208, 187, 209, 140, 209, 130, 208, 181, 209, 128, 208, 189, 208, 176,
       209, 130, 208, 184, 208, 178, 208, 189, 209, 139, 208, 181, 32, 208, 156, 208,
       184, 208, 186, 209, 129, 209, 139, 32, 208, 184, 32, 68, 105, 115, 99, 111, 118,
       101, 114, 121, 58]"


section \<open>The generation service\<close>

text \<open>
  A chat request carries the two messages and the decoding parameters of line 100. The
  client is any function from the calls made so far and the request to an answer, which
  is a completion or an exception. The exceptions are the instances of \<open>Exception\<close>,
  which are what the service raises on a failure and all that \<open>except Exception\<close>
  catches; an exception is known by its text, \<open>str(e)\<close>. Of a completion only
  \<open>choices[i].message.content\<close> is read, so a completion is the list of these
  contents. A content is a \<open>str\<close> or \<open>None\<close>.
\<close>

record message =
  msg_role :: string
  msg_content :: string

record chat_request =
  messages :: "message list"
  max_tokens :: nat
  temperature :: rat
  top_p :: rat

datatype py_exception = PyException (exc_text: string)

datatype py_value = PyStr string | PyNone

record completion =
  choices :: "py_value list"

type_synonym gen_call = "chat_request \<times> (py_exception + completion)"
type_synonym client = "gen_call list \<Rightarrow> chat_request \<Rightarrow> py_exception + completion"

section \<open>Agent\<close>

record agent =
  agent_name :: string
  agent_role :: string

text \<open>What an f-string puts in the place of a value: a string as it is, \<open>None\<close> as its name.\<close>

fun format_value :: "py_value \<Rightarrow> string" where
  "format_value (PyStr s) = s"
| "format_value PyNone = ''None''"

text \<open>Lines 84 to 97: the two messages.\<close>

definition agent_messages :: "agent \<Rightarrow> py_value \<Rightarrow> message list" where
  "agent_messages self input_context =
     [\<lparr>msg_role = ''system'',
       msg_content = system_head @ agent_name self @ system_mid @ agent_role self @ system_tail\<rparr>,
      \<lparr>msg_role = ''user'',
       msg_content = user_head @ format_value input_context\<rparr>]"

definition agent_request :: "agent \<Rightarrow> py_value \<Rightarrow> chat_request" where
  "agent_request self input_context =
     \<lparr>messages = agent_messages self input_context,
      max_tokens = 1500, temperature = 4 / 10, top_p = 9 / 10\<rparr>"

text \<open>\<open>response.choices[0].message.content\<close>: an empty list raises \<open>IndexError\<close>.\<close>

definition first_choice :: "completion \<Rightarrow> py_exception + py_value" where
  "first_choice response =
     (case choices response of
        [] \<Rightarrow> Inl (PyException ''list index out of range'')
      | c # cs \<Rightarrow> Inr c)"

text \<open>
  \<open>Agent.execute\<close>. The first component is the value returned: the content of the
  first choice as it came, or the string built by the handler. The second is the calls
  made to the client so far, this one added. The argument is whatever the caller hands
  over, the output of another agent included.
\<close>

definition execute ::
  "client \<Rightarrow> agent \<Rightarrow> py_value \<Rightarrow> gen_call list \<Rightarrow> py_value \<times> gen_call list" where
  "execute cl self input_context calls =
     (let request = agent_request self input_context;
          answer = cl calls request
      in (case try_bind answer first_choice of
            Inr content \<Rightarrow> content
          | Inl e \<Rightarrow> PyStr (agent_error_prefix @ exc_text e),
          calls @ [(request, answer)]))"

section \<open>Building the context\<close>

text \<open>
  \<open>', '.join(items)\<close> accepts strings only; any other item raises \<open>TypeError\<close>.
\<close>

fun str_items :: "json list \<Rightarrow> py_error + string list" where
  "str_items [] = Inr []"
| "str_items (JStr s # xs) = try_bind (str_items xs) (\<lambda>ss. Inr (s # ss))"
| "str_items (_ # xs) = Inl TypeError"

fun join_with :: "string \<Rightarrow> string list \<Rightarrow> string" where
  "join_with sep [] = []"
| "join_with sep [s] = s"
| "join_with sep (s # ss) = s @ sep @ join_with sep ss"

definition py_join :: "string \<Rightarrow> json list \<Rightarrow> py_error + string" where
  "py_join sep items = try_bind (str_items items) (\<lambda>ss. Inr (join_with sep ss))"

text \<open>Line 153, one round of the loop over \<open>raw_data['similar']\<close>.\<close>

fun context_lines :: "formatter \<Rightarrow> related_artist list \<Rightarrow> string \<Rightarrow> py_error + string" where
  "context_lines py_str [] context_payload = Inr context_payload"
| "context_lines py_str (s # rest) context_payload =
     try_bind (py_join '', '' (tracks s)) (\<lambda>joined.
       context_lines py_str rest
         (context_payload @ ''- '' @ py_str (name s) @ context_tracks @ joined @ '')'' @ [CHR 0x0A]))"

text \<open>Lines 150 to 153.\<close>

definition build_context :: "formatter \<Rightarrow> artist_metadata \<Rightarrow> py_error + string" where
  "build_context py_str raw_data =
     try_bind (py_join '', '' (source_tracks raw_data)) (\<lambda>joined.
       context_lines py_str (similar raw_data)
         (context_head @ py_str (source_artist raw_data) @ context_top @ joined @ '')'' @ [CHR 0x0A]
            @ context_related))"

section \<open>main\<close>

text \<open>
  What \<open>main\<close> shows is a list of events, oldest first. Of the Streamlit calls those
  are kept that carry data or signal a condition: the warning, the status box and its
  updates, \<open>st.success\<close>, \<open>st.error\<close>, \<open>st.stop\<close> and the \<open>st.markdown\<close> of a stage
  output. Page set-up, titles, sub-headers, dividers, chat bubbles and spinners are
  fixed decoration and are left out.
\<close>

datatype ui_event =
    StWarning string
  | StStatus string
  | StatusUpdate string string
  | StSuccess string
  | StError string
  | StStop
  | StMarkdown py_value

datatype outcome = Returned | Stopped | Raised py_error

record main_result =
  ui_events :: "ui_event list"
  catalog_requests :: "exchange list"
  generation_calls :: "gen_call list"
  outcome :: outcome

definition agent1 :: agent where
  "agent1 = \<lparr>agent_name = agent1_name, agent_role = agent1_role\<rparr>"

definition agent2 :: agent where
  "agent2 = \<lparr>agent_name = agent2_name, agent_role = agent2_role\<rparr>"

definition agent3 :: agent where
  "agent3 = \<lparr>agent_name = agent3_name, agent_role = agent3_role\<rparr>"

definition agent4 :: agent where
  "agent4 = \<lparr>agent_name = agent4_name, agent_role = agent4_role\<rparr>"

text \<open>Lines 157 to 206: the four stages, from the built context on.\<close>

definition run_stages :: "client \<Rightarrow> string \<Rightarrow> ui_event list \<times> gen_call list" where
  "run_stages cl context_payload =
     (case execute cl agent1 (PyStr context_payload) [] of (output_1, calls1) \<Rightarrow>
      case execute cl agent2 (PyStr context_payload) calls1 of (output_2, calls2) \<Rightarrow>
      case execute cl agent3 output_2 calls2 of (output_3, calls3) \<Rightarrow>
      case execute cl agent4 output_3 calls3 of (output_4, calls4) \<Rightarrow>
        ([StMarkdown output_1, StMarkdown output_2, StMarkdown output_3,
          StSuccess discovery_label, StMarkdown output_4], calls4))"

text \<open>
  \<open>main\<close>. \<open>inference_client\<close> is the constructor \<open>InferenceClient(model, token)\<close>;
  \<open>hf_token\<close>, \<open>run_btn\<close> and \<open>user_query\<close> are what the three widgets return. An
  exception that nothing catches ends the run with \<open>Raised\<close>.
\<close>

definition main ::
  "formatter \<Rightarrow> catalog \<Rightarrow> sampler \<Rightarrow> (string \<Rightarrow> string \<Rightarrow> client)
     \<Rightarrow> string \<Rightarrow> bool \<Rightarrow> string \<Rightarrow> main_result" where
  "main py_str cat rng inference_client hf_token run_btn user_query =
     (if hf_token = [] then
        \<lparr>ui_events = [StWarning token_warning], catalog_requests = [], generation_calls = [], outcome = Returned\<rparr>
      else if \<not> (run_btn \<and> user_query \<noteq> []) then
        \<lparr>ui_events = [], catalog_requests = [], generation_calls = [], outcome = Returned\<rparr>
      else
        (case fetch_artist_metadata py_str cat rng user_query of
           (None, tr) \<Rightarrow>
             \<lparr>ui_events = [StStatus status_label, StatusUpdate status_error_label ''error'',
                    StError artist_not_found, StStop],
              catalog_requests = tr, generation_calls = [], outcome = Stopped\<rparr>
         | (Some raw_data, tr) \<Rightarrow>
             (let shown = [StStatus status_label,
                           StSuccess (identified_head @ py_str (source_artist raw_data) @ ''.''),
                           StatusUpdate status_complete_label ''complete'']
              in case build_context py_str raw_data of
                   Inl e \<Rightarrow> \<lparr>ui_events = shown, catalog_requests = tr, generation_calls = [], outcome = Raised e\<rparr>
                 | Inr context_payload \<Rightarrow>
                     (case run_stages (inference_client MODEL_REPO_ID hf_token) context_payload of
                        (stage_ui, stage_calls) \<Rightarrow>
                          \<lparr>ui_events = shown @ stage_ui, catalog_requests = tr,
                           generation_calls = stage_calls,
                           outcome = Returned\<rparr>))))"

section \<open>Reading the traces\<close>

text \<open>
  What \<open>.json().get('data', [])\<close> yields for an exchange, and the titles the
  comprehension reads from it.
\<close>

definition exchange_data :: "exchange \<Rightarrow> py_error + json" where
  "exchange_data ex = try_bind (snd ex) (\<lambda>j. dict_get j ''data'' (JArr []))"

definition exchange_titles :: "exchange \<Rightarrow> py_error + json list" where
  "exchange_titles ex = try_bind (exchange_data ex) track_titles"

text \<open>
  The related artists that the loop visits, read from the exchange that asked for the
  related list.
\<close>

definition kept_related :: "sampler \<Rightarrow> exchange \<Rightarrow> py_error + json list" where
  "kept_related rng ex =
     try_bind (exchange_data ex) (\<lambda>d. try_bind (select_related rng d) py_iter)"

text \<open>The value \<open>Agent.execute\<close> returns for a call, read from the call's answer.\<close>

definition call_output :: "gen_call \<Rightarrow> py_value" where
  "call_output c =
     (case try_bind (snd c) first_choice of
        Inr content \<Rightarrow> content
      | Inl e \<Rightarrow> PyStr (agent_error_prefix @ exc_text e))"

text \<open>
  Answers of the expected shape: a document whose \<open>data\<close> (or its default, the empty
  list) is a list of objects with the fields read from them. The list may be empty.
\<close>

definition has_title :: "json \<Rightarrow> bool" where
  "has_title t = (\<not> isl (subscript_key t ''title''))"

definition is_artist :: "json \<Rightarrow> bool" where
  "is_artist r = (\<not> isl (subscript_key r ''id'') \<and> \<not> isl (subscript_key r ''name''))"

definition track_list_ok :: "py_error + json \<Rightarrow> bool" where
  "track_list_ok answer =
     (case try_bind answer (\<lambda>j. dict_get j ''data'' (JArr [])) of
        Inr (JArr ts) \<Rightarrow> list_all has_title ts
      | _ \<Rightarrow> False)"

definition artist_list_ok :: "py_error + json \<Rightarrow> bool" where
  "artist_list_ok answer =
     (case try_bind answer (\<lambda>j. dict_get j ''data'' (JArr [])) of
        Inr (JArr rs) \<Rightarrow> list_all is_artist rs
      | _ \<Rightarrow> False)"

text \<open>The input an agent was given, read back from the user message of its request.\<close>

definition stage_input :: "gen_call \<Rightarrow> string" where
  "stage_input c =
     (case messages (fst c) of
        [system_message, user_message] \<Rightarrow> drop (length user_head) (msg_content user_message)
      | _ \<Rightarrow> [])"

section \<open>Example services\<close>

text \<open>
  A catalog given by a table from URL to answer; a URL outside the table fails. The
  formatter of the examples agrees with Python's \<open>str()\<close> on strings, the only values
  the examples hand to it. The example sampler takes the last \<open>k\<close> positions, the
  last one first.
\<close>

definition table_catalog :: "(url \<times> (py_error + json)) list \<Rightarrow> catalog" where
  "table_catalog table tr u = (case map_of table u of None \<Rightarrow> Inl RequestError | Some r \<Rightarrow> r)"

fun str_of_text :: formatter where
  "str_of_text (JStr s) = s"
| "str_of_text _ = []"

definition last_first :: sampler where
  "last_first n k = map (\<lambda>i. n - 1 - i) [0..<k]"

definition artist_entry :: "string \<Rightarrow> string \<Rightarrow> json" where
  "artist_entry ident nm = JObj [(''id'', JStr ident), (''name'', JStr nm)]"

definition track_entry :: "json \<Rightarrow> json" where
  "track_entry title = JObj [(''title'', title)]"

definition data_of :: "json list \<Rightarrow> py_error + json" where
  "data_of xs = Inr (JObj [(''data'', JArr xs)])"

text \<open>
  The catalog of the end-to-end scenario: artist Echo with two top tracks and six
  related artists with one top track each.
\<close>

definition echo_related :: "json list" where
  "echo_related =
     [artist_entry ''11'' ''R1'', artist_entry ''12'' ''R2'', artist_entry ''13'' ''R3'',
      artist_entry ''14'' ''R4'', artist_entry ''15'' ''R5'', artist_entry ''16'' ''R6'']"

definition echo_table :: "(url \<times> (py_error + json)) list" where
  "echo_table =
     [(''https://api.deezer.com/search/artist?q=Echo'', data_of [artist_entry ''1'' ''Echo'']),
      (''https://api.deezer.com/artist/1/top?limit=4'',
         data_of [track_entry (JStr ''A''), track_entry (JStr ''B'')]),
      (''https://api.deezer.com/artist/1/related?limit=20'', data_of echo_related),
      (''https://api.deezer.com/artist/11/top?limit=2'', data_of [track_entry (JStr ''T1'')]),
      (''https://api.deezer.com/artist/12/top?limit=2'', data_of [track_entry (JStr ''T2'')]),
      (''https://api.deezer.com/artist/13/top?limit=2'', data_of [track_entry (JStr ''T3'')]),
      (''https://api.deezer.com/artist/14/top?limit=2'', data_of [track_entry (JStr ''T4'')]),
      (''https://api.deezer.com/artist/15/top?limit=2'', data_of [track_entry (JStr ''T5'')]),
      (''https://api.deezer.com/artist/16/top?limit=2'', data_of [track_entry (JStr ''T6'')])]"

text \<open>
  A client that always raises, one that echoes the user message after \<open>GEN:\<close>, and
  one whose completion has \<open>None\<close> for its content.
\<close>

definition failing_client :: client where
  "failing_client made request = Inl (PyException ''503 Service Unavailable'')"

definition echo_client :: client where
  "echo_client made request =
     (case messages request of
        [system_message, user_message] \<Rightarrow>
          Inr \<lparr>choices = [PyStr (''GEN:'' @ msg_content user_message)]\<rparr>
      | _ \<Rightarrow> Inl (PyException ''bad request''))"


definition echo_metadata :: artist_metadata where
  "echo_metadata =
     \<lparr>source_artist = JStr ''Echo'', source_tracks = [JStr ''A'', JStr ''B''],
      similar = [\<lparr>name = JStr ''R6'', tracks = [JStr ''T6'']\<rparr>,
                 \<lparr>name = JStr ''R5'', tracks = [JStr ''T5'']\<rparr>,
                 \<lparr>name = JStr ''R4'', tracks = [JStr ''T4'']\<rparr>,
                 \<lparr>name = JStr ''R3'', tracks = [JStr ''T3'']\<rparr>,
                 \<lparr>name = JStr ''R2'', tracks = [JStr ''T2'']\<rparr>]\<rparr>"


text \<open>A catalog that finds nothing for the query Zzyzx123.\<close>

definition zzyzx_table :: "(url \<times> (py_error + json)) list" where
  "zzyzx_table = [(''https://api.deezer.com/search/artist?q=Zzyzx123'', data_of [])]"

text \<open>
  A catalog that does not keep to the \<open>limit\<close> of the query: five top tracks where
  four were asked for, three where two were.
\<close>

definition generous_table :: "(url \<times> (py_error + json)) list" where
  "generous_table =
     [(''https://api.deezer.com/search/artist?q=Echo'', data_of [artist_entry ''1'' ''Echo'']),
      (''https://api.deezer.com/artist/1/top?limit=4'',
         data_of [track_entry (JStr ''A''), track_entry (JStr ''B''), track_entry (JStr ''C''),
                  track_entry (JStr ''D''), track_entry (JStr ''E'')]),
      (''https://api.deezer.com/artist/1/related?limit=20'', data_of [artist_entry ''11'' ''R1'']),
      (''https://api.deezer.com/artist/11/top?limit=2'',
         data_of [track_entry (JStr ''T1''), track_entry (JStr ''T2''), track_entry (JStr ''T3'')])]"

definition generous_metadata :: artist_metadata where
  "generous_metadata =
     \<lparr>source_artist = JStr ''Echo'',
      source_tracks = [JStr ''A'', JStr ''B'', JStr ''C'', JStr ''D'', JStr ''E''],
      similar = [\<lparr>name = JStr ''R1'', tracks = [JStr ''T1'', JStr ''T2'', JStr ''T3'']\<rparr>]\<rparr>"

text \<open>A catalog whose related list names the same artist six times.\<close>

definition twin_table :: "(url \<times> (py_error + json)) list" where
  "twin_table =
     [(''https://api.deezer.com/search/artist?q=Echo'', data_of [artist_entry ''1'' ''Echo'']),
      (''https://api.deezer.com/artist/1/top?limit=4'', data_of [track_entry (JStr ''A'')]),
      (''https://api.deezer.com/artist/1/related?limit=20'',
         data_of [artist_entry ''11'' ''R1'', artist_entry ''11'' ''R1'', artist_entry ''11'' ''R1'',
                  artist_entry ''11'' ''R1'', artist_entry ''11'' ''R1'', artist_entry ''11'' ''R1'']),
      (''https://api.deezer.com/artist/11/top?limit=2'', data_of [track_entry (JStr ''T1'')])]"

definition twin_metadata :: artist_metadata where
  "twin_metadata =
     \<lparr>source_artist = JStr ''Echo'', source_tracks = [JStr ''A''],
      similar = [\<lparr>name = JStr ''R1'', tracks = [JStr ''T1'']\<rparr>,
                 \<lparr>name = JStr ''R1'', tracks = [JStr ''T1'']\<rparr>,
                 \<lparr>name = JStr ''R1'', tracks = [JStr ''T1'']\<rparr>,
                 \<lparr>name = JStr ''R1'', tracks = [JStr ''T1'']\<rparr>,
                 \<lparr>name = JStr ''R1'', tracks = [JStr ''T1'']\<rparr>]\<rparr>"

text \<open>
  A catalog that knows the artist Quiet and one related artist, Hush, and answers every
  other request with an empty list.
\<close>

definition sparse_catalog :: catalog where
  "sparse_catalog tr u =
     (if u = ''https://api.deezer.com/search/artist?q=Quiet''
        then data_of [artist_entry ''7'' ''Quiet'']
      else if u = ''https://api.deezer.com/artist/7/related?limit=20''
        then data_of [artist_entry ''8'' ''Hush'']
      else data_of [])"

definition sparse_metadata :: artist_metadata where
  "sparse_metadata =
     \<lparr>source_artist = JStr ''Quiet'', source_tracks = [],
      similar = [\<lparr>name = JStr ''Hush'', tracks = []\<rparr>]\<rparr>"

text \<open>A catalog whose one top track has \<open>null\<close> for its title.\<close>

definition untitled_table :: "(url \<times> (py_error + json)) list" where
  "untitled_table =
     [(''https://api.deezer.com/search/artist?q=Echo'', data_of [artist_entry ''1'' ''Echo'']),
      (''https://api.deezer.com/artist/1/top?limit=4'', data_of [track_entry JNull]),
      (''https://api.deezer.com/artist/1/related?limit=20'', data_of [])]"

definition untitled_metadata :: artist_metadata where
  "untitled_metadata = \<lparr>source_artist = JStr ''Echo'', source_tracks = [JNull], similar = []\<rparr>"

text \<open>Constructors that hand out the example clients whatever the model and the token.\<close>

definition echo_service :: "string \<Rightarrow> string \<Rightarrow> client" where
  "echo_service model token = echo_client"

definition failing_service :: "string \<Rightarrow> string \<Rightarrow> client" where
  "failing_service model token = failing_client"


section \<open>Basic facts\<close>

lemma try_bind_Inr_iff: "try_bind r f = Inr y \<longleftrightarrow> (\<exists>x. r = Inr x \<and> f x = Inr y)"
  by (cases r) auto

lemma get_titles_eq:
  "get_titles cat tr u = (exchange_titles (u, cat tr u), tr @ [(u, cat tr u)])"
  by (cases "cat tr u")
     (simp_all add: get_titles_def requests_get_json_def exchange_titles_def exchange_data_def)

lemma titles_of_length: "titles_of ts = Inr vs \<Longrightarrow> length vs = length ts"
  by (induction ts arbitrary: vs) (auto simp: try_bind_Inr_iff)

lemma track_titles_len: "track_titles d = Inr vs \<Longrightarrow> py_len d = Inr (length vs)"
proof (cases d)
  case (JStr s)
  assume "track_titles d = Inr vs"
  with JStr show ?thesis by (cases s) (auto simp: track_titles_def try_bind_Inr_iff)
next
  case (JObj kvs)
  assume "track_titles d = Inr vs"
  with JObj show ?thesis by (cases kvs) (auto simp: track_titles_def try_bind_Inr_iff)
qed (auto simp: track_titles_def try_bind_Inr_iff dest!: titles_of_length)

lemma exchange_error: "isl (snd ex) \<Longrightarrow> isl (exchange_titles ex)"
  by (cases "snd ex") (auto simp: exchange_titles_def exchange_data_def)

lemma exchange_data_error: "isl (snd ex) \<Longrightarrow> isl (exchange_data ex)"
  by (cases "snd ex") (auto simp: exchange_data_def)

section \<open>The loop over the related artists\<close>

lemma fetch_similar_Cons:
  "fetch_similar py_str cat (r # rest) acc tr =
     (case subscript_key r ''id'' of
        Inl e \<Rightarrow> (Inl e, tr)
      | Inr r_id \<Rightarrow>
          (case exchange_titles (top_url py_str r_id ''2'', cat tr (top_url py_str r_id ''2'')) of
             Inl e \<Rightarrow> (Inl e, tr @ [(top_url py_str r_id ''2'', cat tr (top_url py_str r_id ''2''))])
           | Inr r_tracks \<Rightarrow>
               (case subscript_key r ''name'' of
                  Inl e \<Rightarrow> (Inl e, tr @ [(top_url py_str r_id ''2'', cat tr (top_url py_str r_id ''2''))])
                | Inr nm \<Rightarrow>
                    fetch_similar py_str cat rest (acc @ [\<lparr>name = nm, tracks = r_tracks\<rparr>])
                      (tr @ [(top_url py_str r_id ''2'', cat tr (top_url py_str r_id ''2''))]))))"
  by (simp add: get_titles_eq split: sum.splits)

declare fetch_similar.simps(2) [simp del]

text \<open>
  Whatever the loop returns, it only appends exchanges, at most one for each related
  artist and each to that artist's top-tracks URL; an exchange that cannot be read is the
  last one, and the loop then ends in an exception.
\<close>

lemma fetch_similar_trace:
  "fetch_similar py_str cat rels acc tr = (res, tr') \<Longrightarrow>
     \<exists>ext. tr' = tr @ ext \<and> length ext \<le> length rels \<and>
       list_all2 (\<lambda>ex r. \<exists>r_id. subscript_key r ''id'' = Inr r_id \<and> fst ex = top_url py_str r_id ''2'')
         ext (take (length ext) rels) \<and>
       (\<forall>ex \<in> set (butlast ext). \<not> isl (exchange_titles ex)) \<and>
       (ext \<noteq> [] \<and> isl (exchange_titles (last ext)) \<longrightarrow> isl res)"
proof (induction rels arbitrary: acc tr)
  case Nil
  then show ?case by simp
next
  case (Cons r rest)
  show ?case
  proof (cases "subscript_key r ''id''")
    case (Inl e)
    with Cons.prems show ?thesis by (simp add: fetch_similar_Cons)
  next
    case (Inr r_id)
    let ?x = "(top_url py_str r_id ''2'', cat tr (top_url py_str r_id ''2''))"
    show ?thesis
    proof (cases "exchange_titles ?x")
      case (Inl e)
      with Inr Cons.prems show ?thesis
        by (auto simp add: fetch_similar_Cons)
    next
      case ts: (Inr r_tracks)
      show ?thesis
      proof (cases "subscript_key r ''name''")
        case (Inl e)
        with Inr ts Cons.prems show ?thesis
          by (auto simp add: fetch_similar_Cons)
      next
        case nm: (Inr nm)
        from Inr ts nm Cons.prems
        have "fetch_similar py_str cat rest (acc @ [\<lparr>name = nm, tracks = r_tracks\<rparr>]) (tr @ [?x]) = (res, tr')"
          by (simp add: fetch_similar_Cons)
        from Cons.IH [OF this] obtain ext where
          e: "tr' = (tr @ [?x]) @ ext" "length ext \<le> length rest"
          "list_all2 (\<lambda>ex r. \<exists>r_id. subscript_key r ''id'' = Inr r_id \<and> fst ex = top_url py_str r_id ''2'')
             ext (take (length ext) rest)"
          "\<forall>ex \<in> set (butlast ext). \<not> isl (exchange_titles ex)"
          "ext \<noteq> [] \<and> isl (exchange_titles (last ext)) \<longrightarrow> isl res"
          by blast
        show ?thesis
          apply (rule exI [of _ "?x # ext"])
          using e Inr ts nm by (auto simp: butlast_def split: if_splits)
      qed
    qed
  qed
qed

text \<open>
  When the loop succeeds it has appended one entry for each related artist, in order:
  the artist's name, and the titles read from the exchange made for it.
\<close>

lemma fetch_similar_ok:
  "fetch_similar py_str cat rels acc tr = (Inr infos, tr') \<Longrightarrow>
     \<exists>new. infos = acc @ new \<and>
       map (\<lambda>r. subscript_key r ''name'') rels = map (\<lambda>e. Inr (name e)) new \<and>
       map exchange_titles (drop (length tr) tr') = map (\<lambda>e. Inr (tracks e)) new"
proof (induction rels arbitrary: acc tr)
  case Nil
  then show ?case by simp
next
  case (Cons r rest)
  from Cons.prems obtain r_id r_tracks nm where
    f: "subscript_key r ''id'' = Inr r_id"
       "exchange_titles (top_url py_str r_id ''2'', cat tr (top_url py_str r_id ''2'')) = Inr r_tracks"
       "subscript_key r ''name'' = Inr nm"
       "fetch_similar py_str cat rest (acc @ [\<lparr>name = nm, tracks = r_tracks\<rparr>])
          (tr @ [(top_url py_str r_id ''2'', cat tr (top_url py_str r_id ''2''))]) = (Inr infos, tr')"
    by (auto simp: fetch_similar_Cons split: sum.splits)
  from Cons.IH [OF f(4)] obtain new where
    n: "infos = (acc @ [\<lparr>name = nm, tracks = r_tracks\<rparr>]) @ new"
       "map (\<lambda>r. subscript_key r ''name'') rest = map (\<lambda>e. Inr (name e)) new"
       "map exchange_titles (drop (Suc (length tr)) tr') = map (\<lambda>e. Inr (tracks e)) new"
    by auto
  from fetch_similar_trace [OF f(4)] obtain ext where
    "tr' = (tr @ [(top_url py_str r_id ''2'', cat tr (top_url py_str r_id ''2''))]) @ ext" by blast
  then have d: "drop (length tr) tr' =
      (top_url py_str r_id ''2'', cat tr (top_url py_str r_id ''2'')) # drop (Suc (length tr)) tr'"
    by simp
  show ?case
    apply (rule exI [of _ "\<lparr>name = nm, tracks = r_tracks\<rparr> # new"])
    using n f d by simp
qed

section \<open>Agent.execute\<close>

lemma execute_eq:
  "execute cl self input_context made =
     (call_output (agent_request self input_context, cl made (agent_request self input_context)),
      made @ [(agent_request self input_context, cl made (agent_request self input_context))])"
  by (simp add: execute_def call_output_def Let_def)


lemma call_output_raise: "call_output (request, Inl e) = PyStr (agent_error_prefix @ exc_text e)"
  by (simp add: call_output_def)






text \<open>
  Claim C10. When the generation call raises \<open>e\<close>, the value returned is the string
  made of the fixed prefix followed by the text of \<open>e\<close>, and so differs from every
  content that does not begin with the prefix.
\<close>

theorem execute_error_text:
  "cl made (agent_request self input_context) = Inl e \<longrightarrow>
     fst (execute cl self input_context made) = PyStr (agent_error_prefix @ exc_text e)
     \<and> (\<forall>completion_text. take (length agent_error_prefix) completion_text \<noteq> agent_error_prefix
           \<longrightarrow> PyStr completion_text \<noteq> fst (execute cl self input_context made))
     \<and> PyNone \<noteq> fst (execute cl self input_context made)"
  by (auto simp add: execute_eq call_output_raise)

theorem execute_error_text_witness:
  "failing_client [] (agent_request agent2 (PyStr ''ctx'')) = Inl (PyException ''503 Service Unavailable'')
     \<and> fst (execute failing_client agent2 (PyStr ''ctx'') [])
         = PyStr (agent_error_prefix @ ''503 Service Unavailable'')
     \<and> take (length agent_error_prefix) ''GEN:ctx'' \<noteq> agent_error_prefix
     \<and> PyStr ''GEN:ctx'' \<noteq> fst (execute failing_client agent2 (PyStr ''ctx'') [])"
proof -
  have p: "take (length agent_error_prefix) ''GEN:ctx'' \<noteq> agent_error_prefix"
    by (simp add: agent_error_prefix_def utf8_def)
  have f: "failing_client [] (agent_request agent2 (PyStr ''ctx''))
      = Inl (PyException ''503 Service Unavailable'')"
    by (simp add: failing_client_def)
  note t = execute_error_text
    [of failing_client "[]" agent2 "PyStr ''ctx''" "PyException ''503 Service Unavailable''",
     rule_format, OF f]
  from t have 1: "fst (execute failing_client agent2 (PyStr ''ctx'') [])
      = PyStr (agent_error_prefix @ exc_text (PyException ''503 Service Unavailable''))"
    by (rule conjunct1)
  from t have "\<forall>completion_text. take (length agent_error_prefix) completion_text \<noteq> agent_error_prefix
           \<longrightarrow> PyStr completion_text \<noteq> fst (execute failing_client agent2 (PyStr ''ctx'') [])"
    by blast
  with p have 2: "PyStr ''GEN:ctx'' \<noteq> fst (execute failing_client agent2 (PyStr ''ctx'') [])"
    by blast
  from 1 have 3: "fst (execute failing_client agent2 (PyStr ''ctx'') [])
         = PyStr (agent_error_prefix @ ''503 Service Unavailable'')"
    by simp
  from f 3 p 2 show ?thesis by blast
qed

section \<open>The body of fetch-artist-metadata, step by step\<close>

lemma related_read:
  "try_bind r (\<lambda>j. try_bind (dict_get j ''data'' (JArr [])) g) = try_bind (exchange_data (u, r)) g"
  by (cases r) (simp_all add: exchange_data_def)

lemma fetch_try_search_fail:
  "cat [] (search_url q) = Inl e \<Longrightarrow>
     fetch_try py_str cat rng q = (Inl e, [(search_url q, Inl e)])"
  by (simp add: fetch_try_def requests_get_json_def)

lemma fetch_try_no_dict:
  "cat [] (search_url q) = Inr response \<Longrightarrow> dict_get response ''data'' JNull = Inl e \<Longrightarrow>
     fetch_try py_str cat rng q = (Inl e, [(search_url q, Inr response)])"
  by (simp add: fetch_try_def requests_get_json_def)

lemma fetch_try_no_results:
  "cat [] (search_url q) = Inr response \<Longrightarrow> dict_get response ''data'' JNull = Inr found \<Longrightarrow>
     \<not> truthy found \<Longrightarrow>
     fetch_try py_str cat rng q = (Inr None, [(search_url q, Inr response)])"
  by (simp add: fetch_try_def requests_get_json_def)

lemma fetch_try_bad_artist:
  "cat [] (search_url q) = Inr response \<Longrightarrow> dict_get response ''data'' JNull = Inr found \<Longrightarrow>
     truthy found \<Longrightarrow> first_artist response = Inl e \<Longrightarrow>
     fetch_try py_str cat rng q = (Inl e, [(search_url q, Inr response)])"
  by (simp add: fetch_try_def requests_get_json_def)

lemma fetch_try_found:
  assumes "cat [] (search_url q) = Inr response"
    and "dict_get response ''data'' JNull = Inr found" and "truthy found"
    and "first_artist response = Inr (aid, nm)"
    and "x1 = (search_url q, Inr response)"
    and "x2 = (top_url py_str aid ''4'', cat [x1] (top_url py_str aid ''4''))"
    and "x3 = (related_url py_str aid, cat [x1, x2] (related_url py_str aid))"
  shows "fetch_try py_str cat rng q =
     (case exchange_titles x2 of
        Inl e \<Rightarrow> (Inl e, [x1, x2])
      | Inr src_tracks \<Rightarrow>
          (case try_bind (exchange_data x3) (\<lambda>d. try_bind (select_related rng d) py_iter) of
             Inl e \<Rightarrow> (Inl e, [x1, x2, x3])
           | Inr related_data \<Rightarrow>
               (case fetch_similar py_str cat related_data [] [x1, x2, x3] of
                  (Inl e, tr4) \<Rightarrow> (Inl e, tr4)
                | (Inr infos, tr4) \<Rightarrow>
                    (Inr (Some \<lparr>source_artist = nm, source_tracks = src_tracks, similar = infos\<rparr>),
                     tr4))))"
  using assms(1-4) unfolding assms(5-7)
  by (simp add: fetch_try_def requests_get_json_def get_titles_eq
        related_read [where u = "related_url py_str aid"] split: sum.splits)

lemma first_artist_found:
  "first_artist response = Inr (aid, nm) \<Longrightarrow>
     \<exists>found. dict_get response ''data'' JNull = Inr found \<and> truthy found"
  apply (cases response)
  apply (auto simp: first_artist_def try_bind_Inr_iff split: option.splits)
  subgoal for kvs d by (cases d rule: subscript_0.cases) auto
  done

lemma fetch_trace_cases:
  assumes "fetch_artist_metadata py_str cat rng q = (res, tr)"
  shows "(tr = [(search_url q, cat [] (search_url q))] \<and> res = None)
       \<or> (\<exists>aid x1 x2. tr = [x1, x2] \<and> fst x1 = search_url q \<and> fst x2 = top_url py_str aid ''4'' \<and>
             \<not> isl (snd x1) \<and> res = None)
       \<or> (\<exists>aid x1 x2 x3. tr = [x1, x2, x3] \<and> fst x1 = search_url q \<and>
             fst x2 = top_url py_str aid ''4'' \<and> fst x3 = related_url py_str aid \<and>
             \<not> isl (snd x1) \<and> \<not> isl (snd x2) \<and> \<not> isl (exchange_titles x2) \<and>
             isl (kept_related rng x3) \<and> res = None)
       \<or> (\<exists>aid x1 x2 x3 d3 sel rels r4. fst x1 = search_url q \<and>
             fst x2 = top_url py_str aid ''4'' \<and> fst x3 = related_url py_str aid \<and>
             \<not> isl (snd x1) \<and> \<not> isl (snd x2) \<and> \<not> isl (snd x3) \<and>
             \<not> isl (exchange_titles x2) \<and>
             exchange_data x3 = Inr d3 \<and> select_related rng d3 = Inr sel \<and> py_iter sel = Inr rels \<and>
             fetch_similar py_str cat rels [] [x1, x2, x3] = (r4, tr) \<and> (isl r4 \<longrightarrow> res = None))"
proof (cases "cat [] (search_url q)")
  case (Inl e)
  with assms show ?thesis
    by (simp add: fetch_artist_metadata_def fetch_try_search_fail)
next
  case (Inr response)
  define x1 :: exchange where "x1 = (search_url q, Inr response)"
  show ?thesis
  proof (cases "dict_get response ''data'' JNull")
    case (Inl e)
    with assms Inr show ?thesis
      by (simp add: fetch_artist_metadata_def fetch_try_no_dict)
  next
    case fd: (Inr found)
    show ?thesis
    proof (cases "truthy found")
      case False
      with assms Inr fd show ?thesis
        by (simp add: fetch_artist_metadata_def fetch_try_no_results)
    next
      case True
      show ?thesis
      proof (cases "first_artist response")
        case (Inl e)
        with assms Inr fd True show ?thesis
          by (simp add: fetch_artist_metadata_def fetch_try_bad_artist)
      next
        case fa: (Inr p)
        obtain aid nm where p: "p = (aid, nm)" by (cases p)
        define x2 where "x2 = (top_url py_str aid ''4'', cat [x1] (top_url py_str aid ''4''))"
        define x3 where "x3 = (related_url py_str aid, cat [x1, x2] (related_url py_str aid))"
        note unf = fetch_try_found [OF Inr fd True fa [unfolded p] x1_def x2_def x3_def, of rng]
        have n1: "\<not> isl (snd x1)" by (simp add: x1_def)
        have u: "fst x1 = search_url q" "fst x2 = top_url py_str aid ''4''"
          "fst x3 = related_url py_str aid"
          by (simp_all add: x1_def x2_def x3_def)
        show ?thesis
        proof (cases "exchange_titles x2")
          case (Inl e)
          with assms unf have "tr = [x1, x2]" "res = None"
            by (simp_all add: fetch_artist_metadata_def)
          with n1 u show ?thesis by blast
        next
          case ts: (Inr src_tracks)
          then have n2: "\<not> isl (snd x2)" "\<not> isl (exchange_titles x2)"
            using exchange_error [of x2] by auto
          show ?thesis
          proof (cases "try_bind (exchange_data x3) (\<lambda>d. try_bind (select_related rng d) py_iter)")
            case (Inl e)
            with assms unf ts have "tr = [x1, x2, x3]" "res = None"
              by (simp_all add: fetch_artist_metadata_def)
            moreover from Inl have "isl (kept_related rng x3)" by (simp add: kept_related_def)
            ultimately have "tr = [x1, x2, x3]" "res = None" "isl (kept_related rng x3)"
              by simp_all
            with n1 n2 u show ?thesis by blast
          next
            case rl: (Inr rels)
            then obtain d3 sel where
              d: "exchange_data x3 = Inr d3" "select_related rng d3 = Inr sel" "py_iter sel = Inr rels"
              by (auto simp: try_bind_Inr_iff)
            then have n3: "\<not> isl (snd x3)" using exchange_data_error [of x3] by auto
            obtain r4 tr4 where r4: "fetch_similar py_str cat rels [] [x1, x2, x3] = (r4, tr4)"
              by (cases "fetch_similar py_str cat rels [] [x1, x2, x3]") auto
            from assms unf ts rl r4 have "tr = tr4" "isl r4 \<longrightarrow> res = None"
              by (auto simp add: fetch_artist_metadata_def split: sum.splits)
            with r4 d n1 n2 n3 u show ?thesis by blast
          qed
        qed
      qed
    qed
  qed
qed

lemma fetch_Some:
  assumes "fetch_artist_metadata py_str cat rng q = (Some md, tr)"
  shows "\<exists>response aid x1 x2 x3 d3 sel rels.
     cat [] (search_url q) = Inr response \<and>
     first_artist response = Inr (aid, source_artist md) \<and>
     x1 = (search_url q, Inr response) \<and>
     x2 = (top_url py_str aid ''4'', cat [x1] (top_url py_str aid ''4'')) \<and>
     exchange_titles x2 = Inr (source_tracks md) \<and>
     x3 = (related_url py_str aid, cat [x1, x2] (related_url py_str aid)) \<and>
     exchange_data x3 = Inr d3 \<and> select_related rng d3 = Inr sel \<and> py_iter sel = Inr rels \<and>
     fetch_similar py_str cat rels [] [x1, x2, x3] = (Inr (similar md), tr)"
  using assms
  unfolding fetch_artist_metadata_def fetch_try_def get_titles_eq requests_get_json_def
  by (auto simp: try_bind_Inr_iff exchange_data_def split: sum.splits prod.splits if_splits option.splits)

section \<open>Traces of a whole call\<close>

lemma select_related_list:
  "select_related rng (JArr xs) =
     Inr (JArr (if 5 < length xs then map (\<lambda>i. xs ! i) (rng (length xs) 5) else xs))"
  by (simp add: select_related_def)

lemma select_related_bound:
  assumes "sampler_ok rng" and "select_related rng d = Inr sel" and "py_iter sel = Inr rels"
  shows "length rels \<le> 5"
proof -
  from assms(1) have five: "\<And>n. 5 \<le> n \<Longrightarrow> length (rng n 5) = 5"
    by (simp add: sampler_ok_def)
  show ?thesis
  proof (cases d)
    case (JArr xs)
    with assms(2,3) five [of "length xs"] show ?thesis
      by (auto simp: select_related_def split: if_splits)
  next
    case (JStr s)
    with assms(2,3) five [of "length s"] show ?thesis
      by (auto simp: select_related_def split: if_splits)
  next
    case (JObj kvs)
    with assms(2,3) show ?thesis
      by (auto simp: select_related_def split: if_splits)
  qed (use assms(2) in \<open>simp_all add: select_related_def\<close>)
qed



lemma fetch_trace_length:
  assumes "fetch_artist_metadata py_str cat rng q = (res, tr)" and "sampler_ok rng"
  shows "1 \<le> length tr \<and> length tr \<le> 8 \<and> fst (tr ! 0) = search_url q"
  using fetch_trace_cases [OF assms(1)]
proof (elim disjE exE conjE)
  fix aid x1 x2 x3 d3 sel rels r4
  assume u: "fst x1 = search_url q"
    and d: "select_related rng d3 = Inr sel" "py_iter sel = Inr rels"
    and f: "fetch_similar py_str cat rels [] [x1, x2, x3] = (r4, tr)"
  from fetch_similar_trace [OF f] obtain ext where
    e: "tr = [x1, x2, x3] @ ext" "length ext \<le> length rels" by blast
  with select_related_bound [OF assms(2) d] u show ?thesis by simp
qed auto

lemma fetch_Some_shape:
  assumes "fetch_artist_metadata py_str cat rng q = (Some md, tr)"
  shows "\<exists>aid x1 x2 x3 ext d3 sel rels.
     tr = [x1, x2, x3] @ ext \<and>
     fst x1 = search_url q \<and> fst x2 = top_url py_str aid ''4'' \<and> fst x3 = related_url py_str aid \<and>
     exchange_titles x2 = Inr (source_tracks md) \<and>
     exchange_data x3 = Inr d3 \<and> select_related rng d3 = Inr sel \<and> py_iter sel = Inr rels \<and>
     length ext = length rels \<and> length (similar md) = length rels \<and>
     map (\<lambda>r. subscript_key r ''name'') rels = map (\<lambda>e. Inr (name e)) (similar md) \<and>
     map exchange_titles ext = map (\<lambda>e. Inr (tracks e)) (similar md) \<and>
     list_all2 (\<lambda>ex r. \<exists>r_id. subscript_key r ''id'' = Inr r_id \<and> fst ex = top_url py_str r_id ''2'')
       ext rels"
proof -
  from fetch_Some [OF assms] obtain response aid x1 x2 x3 d3 sel rels where
    s: "x1 = (search_url q, Inr response)"
       "x2 = (top_url py_str aid ''4'', cat [x1] (top_url py_str aid ''4''))"
       "exchange_titles x2 = Inr (source_tracks md)"
       "x3 = (related_url py_str aid, cat [x1, x2] (related_url py_str aid))"
       "exchange_data x3 = Inr d3" "select_related rng d3 = Inr sel" "py_iter sel = Inr rels"
       "fetch_similar py_str cat rels [] [x1, x2, x3] = (Inr (similar md), tr)"
    by blast
  from fetch_similar_ok [OF s(8)] have
    n: "map (\<lambda>r. subscript_key r ''name'') rels = map (\<lambda>e. Inr (name e)) (similar md)"
       "map exchange_titles (drop 3 tr) = map (\<lambda>e. Inr (tracks e)) (similar md)"
    by (auto simp: numeral_3_eq_3)
  from fetch_similar_trace [OF s(8)] obtain ext where
    e: "tr = [x1, x2, x3] @ ext"
       "list_all2 (\<lambda>ex r. \<exists>r_id. subscript_key r ''id'' = Inr r_id \<and> fst ex = top_url py_str r_id ''2'')
         ext (take (length ext) rels)"
    by blast
  from n(1) have l1: "length (similar md) = length rels" by (metis length_map)
  from n(2) e(1) have m: "map exchange_titles ext = map (\<lambda>e. Inr (tracks e)) (similar md)" by simp
  then have l2: "length ext = length (similar md)" by (metis length_map)
  from e(2) l1 l2 have
    u: "list_all2 (\<lambda>ex r. \<exists>r_id. subscript_key r ''id'' = Inr r_id \<and> fst ex = top_url py_str r_id ''2'')
         ext rels" by simp
  have f: "fst x1 = search_url q" "fst x2 = top_url py_str aid ''4''" "fst x3 = related_url py_str aid"
    by (simp_all add: s)
  from e(1) f s(3,5,6,7) l1 l2 n(1) m u show ?thesis by (intro exI conjI) (assumption | simp)+
qed

lemma fetch_track_lengths:
  assumes "fetch_artist_metadata py_str cat rng q = (Some md, tr)"
  shows "(\<exists>d. exchange_data (tr ! 1) = Inr d \<and> py_len d = Inr (length (source_tracks md))) \<and>
     (\<forall>i < length (similar md).
        \<exists>d. exchange_data (tr ! (3 + i)) = Inr d \<and> py_len d = Inr (length (tracks (similar md ! i))))"
proof -
  from fetch_Some_shape [OF assms] obtain x1 x2 x3 ext where
    s: "tr = [x1, x2, x3] @ ext" "exchange_titles x2 = Inr (source_tracks md)"
       "map exchange_titles ext = map (\<lambda>e. Inr (tracks e)) (similar md)"
    by blast
  have r: "\<exists>d. exchange_data ex = Inr d \<and> py_len d = Inr (length ts)"
    if "exchange_titles ex = Inr ts" for ex ts
    using that by (auto simp: exchange_titles_def try_bind_Inr_iff dest: track_titles_len)
  from s(3) have l: "length ext = length (similar md)" by (metis length_map)
  have "exchange_titles (ext ! i) = Inr (tracks (similar md ! i))" if "i < length (similar md)" for i
  proof -
    from that l have a: "i < length ext" by simp
    from s(3) have "map exchange_titles ext ! i = map (\<lambda>e. Inr (tracks e)) (similar md) ! i"
      by (rule arg_cong)
    with a that show ?thesis by (simp only: nth_map)
  qed
  with r s(1,2) show ?thesis by (auto simp: nth_append)
qed






section \<open>Claims about fetch-artist-metadata\<close>

lemma sampler_ok_last_first: "sampler_ok last_first"
  by (auto simp: sampler_ok_def last_first_def distinct_map inj_on_def)

text \<open>
  Claim C8 (amended). A call makes at least one request, the search, and at most eight.
  A call that returns metadata makes exactly \<open>3 + k\<close> requests, where \<open>k\<close>, at most
  5, is the number of related artists kept: the search, the top tracks with limit 4,
  the related list, and one top-tracks request with limit 2 for each related artist
  kept. A call that returns \<open>None\<close> may stop earlier.
\<close>

theorem fetch_request_count:
  assumes "sampler_ok rng" and "fetch_artist_metadata py_str cat rng q = (res, tr)"
  shows "1 \<le> length tr \<and> length tr \<le> 8 \<and> fst (tr ! 0) = search_url q \<and>
     (\<forall>md. res = Some md \<longrightarrow>
        length (similar md) \<le> 5 \<and> length tr = 3 + length (similar md) \<and>
        (\<exists>aid. fst (tr ! 1) = top_url py_str aid ''4'' \<and> fst (tr ! 2) = related_url py_str aid) \<and>
        (\<forall>i < length (similar md). \<exists>r_id. fst (tr ! (3 + i)) = top_url py_str r_id ''2''))"
proof (intro conjI allI impI)
  from fetch_trace_length [OF assms(2,1)]
  show "1 \<le> length tr" "length tr \<le> 8" "fst (tr ! 0) = search_url q" by simp_all
next
  fix md assume "res = Some md"
  with assms(2) have "fetch_artist_metadata py_str cat rng q = (Some md, tr)" by simp
  from fetch_Some_shape [OF this] obtain aid x1 x2 x3 ext d3 sel rels where
    s: "tr = [x1, x2, x3] @ ext" "fst x2 = top_url py_str aid ''4''" "fst x3 = related_url py_str aid"
       "select_related rng d3 = Inr sel" "py_iter sel = Inr rels"
       "length ext = length rels" "length (similar md) = length rels"
       "list_all2 (\<lambda>ex r. \<exists>r_id. subscript_key r ''id'' = Inr r_id \<and> fst ex = top_url py_str r_id ''2'')
          ext rels"
    by blast
  from select_related_bound [OF assms(1) s(4,5)] s(7)
  show "length (similar md) \<le> 5" by simp
  from s(1,6,7) show "length tr = 3 + length (similar md)" by simp
  from s(1,2,3) show "\<exists>aid. fst (tr ! 1) = top_url py_str aid ''4'' \<and> fst (tr ! 2) = related_url py_str aid"
    by auto
  show "\<exists>r_id. fst (tr ! (3 + i)) = top_url py_str r_id ''2''" if "i < length (similar md)" for i
  proof -
    from that s(6,7) have "i < length ext" by simp
    with s(8) have "\<exists>r_id. subscript_key (rels ! i) ''id'' = Inr r_id \<and> fst (ext ! i) = top_url py_str r_id ''2''"
      by (simp add: list_all2_conv_all_nth)
    with s(1) show ?thesis by (auto simp: nth_append)
  qed
qed

theorem fetch_request_count_witness:
  "sampler_ok last_first
   \<and> fst (fetch_artist_metadata str_of_text (table_catalog echo_table) last_first ''Echo'') = Some echo_metadata
   \<and> length (snd (fetch_artist_metadata str_of_text (table_catalog echo_table) last_first ''Echo'')) = 8"
proof -
  let ?r = "fetch_artist_metadata str_of_text (table_catalog echo_table) last_first ''Echo''"
  have v: "fst ?r = Some echo_metadata" by code_simp
  have l: "length (similar echo_metadata) = 5" by (simp add: echo_metadata_def)
  note t = fetch_request_count [OF sampler_ok_last_first prod.collapse [symmetric],
      of str_of_text "table_catalog echo_table" "''Echo''"]
  from t v have "length (snd ?r) = 3 + length (similar echo_metadata)" by blast
  with v l sampler_ok_last_first show ?thesis by simp
qed

text \<open>
  The claim as stated, three to eight requests for every call, fails when the search
  finds nothing: the call ends after the one search request.
\<close>

theorem fetch_request_count_counterexample:
  "fetch_artist_metadata str_of_text (table_catalog zzyzx_table) last_first ''Zzyzx123'' =
     (None, [(''https://api.deezer.com/search/artist?q=Zzyzx123'', Inr (JObj [(''data'', JArr [])]))])
   \<and> \<not> 3 \<le> length (snd (fetch_artist_metadata str_of_text (table_catalog zzyzx_table) last_first ''Zzyzx123''))"
proof -
  have "fetch_artist_metadata str_of_text (table_catalog zzyzx_table) last_first ''Zzyzx123'' =
     (None, [(''https://api.deezer.com/search/artist?q=Zzyzx123'', Inr (JObj [(''data'', JArr [])]))])"
    by code_simp
  then show ?thesis by simp
qed

text \<open>
  Claim C6 (amended). In the metadata returned, \<open>source_tracks\<close> has exactly as many
  entries as the \<open>data\<close> of the answer to the top-tracks request, and the tracks of
  each related artist exactly as many as the \<open>data\<close> of the answer to that artist's
  request. So the lengths are at most 4 and 2 whenever the service keeps to the limits
  it was asked for; the function itself cuts nothing off.
\<close>

theorem tracks_as_returned:
  assumes "fetch_artist_metadata py_str cat rng q = (Some md, tr)"
  shows "(\<exists>d. exchange_data (tr ! 1) = Inr d \<and> py_len d = Inr (length (source_tracks md))) \<and>
     (\<forall>i < length (similar md).
        \<exists>d. exchange_data (tr ! (3 + i)) = Inr d \<and> py_len d = Inr (length (tracks (similar md ! i))))"
  using assms by (rule fetch_track_lengths)

theorem tracks_as_returned_witness:
  "fst (fetch_artist_metadata str_of_text (table_catalog generous_table) last_first ''Echo'') = Some generous_metadata
   \<and> py_len (JArr [track_entry (JStr ''A''), track_entry (JStr ''B''), track_entry (JStr ''C''),
                  track_entry (JStr ''D''), track_entry (JStr ''E'')])
       = Inr (length (source_tracks generous_metadata))"
proof -
  let ?r = "fetch_artist_metadata str_of_text (table_catalog generous_table) last_first ''Echo''"
  have v: "fst ?r = Some generous_metadata" by code_simp
  then have "?r = (Some generous_metadata, snd ?r)" by (metis prod.collapse)
  from tracks_as_returned [OF this]
  obtain d where d: "exchange_data (snd ?r ! 1) = Inr d" "py_len d = Inr (length (source_tracks generous_metadata))"
    by blast
  have "exchange_data (snd ?r ! 1) =
      Inr (JArr [track_entry (JStr ''A''), track_entry (JStr ''B''), track_entry (JStr ''C''),
                  track_entry (JStr ''D''), track_entry (JStr ''E'')])"
    by code_simp
  with d v show ?thesis by simp
qed

text \<open>
  The claim as stated, bounds 4 and 2 under any response, fails for a service that
  answers with more entries than the limit.
\<close>

theorem tracks_as_returned_counterexample:
  "fst (fetch_artist_metadata str_of_text (table_catalog generous_table) last_first ''Echo'') = Some generous_metadata
   \<and> \<not> length (source_tracks generous_metadata) \<le> 4
   \<and> \<not> length (tracks (similar generous_metadata ! 0)) \<le> 2"
proof -
  have "fst (fetch_artist_metadata str_of_text (table_catalog generous_table) last_first ''Echo'') = Some generous_metadata"
    by code_simp
  then show ?thesis by (simp add: generous_metadata_def)
qed



section \<open>The sample of related artists\<close>

lemma sample_positions:
  assumes "sampler_ok rng" and "5 < length xs"
  shows "length (rng (length xs) 5) = 5 \<and> distinct (rng (length xs) 5) \<and>
     (\<forall>p \<in> set (rng (length xs) 5). p < length xs)"
proof -
  from assms(2) have "5 \<le> length xs" by simp
  with assms(1) show ?thesis unfolding sampler_ok_def by blast
qed

lemma distinct_picks:
  assumes "distinct xs" and "distinct ps" and "\<forall>p \<in> set ps. p < length xs"
  shows "distinct (map (\<lambda>p. xs ! p) ps)"
  using assms by (auto simp: distinct_map inj_on_def nth_eq_iff_index_eq)

lemma fetch_kept_names:
  assumes "fetch_artist_metadata py_str cat rng q = (Some md, tr)"
    and "exchange_data (tr ! 2) = Inr (JArr xs)"
  shows "\<exists>ys. select_related rng (JArr xs) = Inr (JArr ys) \<and>
     map (\<lambda>e. Inr (name e)) (similar md) = map (\<lambda>r. subscript_key r ''name'') ys"
proof -
  from fetch_Some_shape [OF assms(1)] obtain x1 x2 x3 ext d3 sel rels where
    s: "tr = [x1, x2, x3] @ ext" "exchange_data x3 = Inr d3" "select_related rng d3 = Inr sel"
       "py_iter sel = Inr rels"
       "map (\<lambda>r. subscript_key r ''name'') rels = map (\<lambda>e. Inr (name e)) (similar md)"
    by blast
  from s(1,2) assms(2) have d: "d3 = JArr xs" by simp
  with s(3) have "sel = JArr (if 5 < length xs then map (\<lambda>i. xs ! i) (rng (length xs) 5) else xs)"
    by (simp add: select_related_list)
  with s(4) have "sel = JArr rels" by simp
  with s(3,5) d show ?thesis by auto
qed

text \<open>
  Claim C1 (amended). For a related list \<open>xs\<close> returned by the catalog and a sampler
  that keeps the contract of \<open>random.sample\<close>: if \<open>xs\<close> has more than 5 entries, the
  list kept has exactly 5, taken from 5 different positions of \<open>xs\<close>, so all of them
  occur in \<open>xs\<close>, and no two of them are equal when no two entries of \<open>xs\<close> are; if
  \<open>xs\<close> has at most 5 entries, the list kept is \<open>xs\<close>. The entries of \<open>similar\<close>
  in the metadata returned carry, in order, the names of the list kept.
\<close>

theorem sample_related_positions:
  assumes "sampler_ok rng"
  shows "(5 < length xs \<longrightarrow>
       (\<exists>ps. length ps = 5 \<and> distinct ps \<and> (\<forall>p \<in> set ps. p < length xs) \<and>
          select_related rng (JArr xs) = Inr (JArr (map (\<lambda>p. xs ! p) ps)) \<and>
          set (map (\<lambda>p. xs ! p) ps) \<subseteq> set xs \<and>
          (distinct xs \<longrightarrow> distinct (map (\<lambda>p. xs ! p) ps)))) \<and>
     (length xs \<le> 5 \<longrightarrow> select_related rng (JArr xs) = Inr (JArr xs)) \<and>
     (\<forall>md tr. fetch_artist_metadata py_str cat rng q = (Some md, tr) \<and>
          exchange_data (tr ! 2) = Inr (JArr xs) \<longrightarrow>
        (\<exists>ys. select_related rng (JArr xs) = Inr (JArr ys) \<and>
           map (\<lambda>e. Inr (name e)) (similar md) = map (\<lambda>r. subscript_key r ''name'') ys))"
proof (intro conjI impI allI)
  assume big: "5 < length xs"
  let ?ps = "rng (length xs) 5"
  from sample_positions [OF assms big] have
    p: "length ?ps = 5" "distinct ?ps" "\<forall>p \<in> set ?ps. p < length xs" by simp_all
  from big have sel: "select_related rng (JArr xs) = Inr (JArr (map (\<lambda>p. xs ! p) ?ps))"
    by (simp add: select_related_list)
  from p(3) have sub: "set (map (\<lambda>p. xs ! p) ?ps) \<subseteq> set xs" by auto
  have dis: "distinct xs \<longrightarrow> distinct (map (\<lambda>p. xs ! p) ?ps)"
    using distinct_picks [OF _ p(2,3)] by blast
  from p sel sub dis
  show "\<exists>ps. length ps = 5 \<and> distinct ps \<and> (\<forall>p \<in> set ps. p < length xs) \<and>
          select_related rng (JArr xs) = Inr (JArr (map (\<lambda>p. xs ! p) ps)) \<and>
          set (map (\<lambda>p. xs ! p) ps) \<subseteq> set xs \<and>
          (distinct xs \<longrightarrow> distinct (map (\<lambda>p. xs ! p) ps))"
    by blast
next
  assume "length xs \<le> 5"
  then show "select_related rng (JArr xs) = Inr (JArr xs)" by (simp add: select_related_list)
next
  fix md tr
  assume "fetch_artist_metadata py_str cat rng q = (Some md, tr) \<and>
          exchange_data (tr ! 2) = Inr (JArr xs)"
  then show "\<exists>ys. select_related rng (JArr xs) = Inr (JArr ys) \<and>
           map (\<lambda>e. Inr (name e)) (similar md) = map (\<lambda>r. subscript_key r ''name'') ys"
    using fetch_kept_names by blast
qed

theorem sample_related_positions_witness:
  "sampler_ok last_first \<and> 5 < length echo_related \<and> distinct echo_related \<and>
   (\<exists>ps. length ps = 5 \<and> distinct ps \<and>
      select_related last_first (JArr echo_related) = Inr (JArr (map (\<lambda>p. echo_related ! p) ps)) \<and>
      distinct (map (\<lambda>p. echo_related ! p) ps)) \<and>
   select_related last_first (JArr (take 5 echo_related)) = Inr (JArr (take 5 echo_related))"
proof -
  have l: "5 < length echo_related" by (simp add: echo_related_def)
  have d: "distinct echo_related" by (simp add: echo_related_def artist_entry_def)
  have s: "length (take 5 echo_related) \<le> 5" by simp
  note t = sample_related_positions [OF sampler_ok_last_first, of echo_related]
  note u = sample_related_positions [OF sampler_ok_last_first, of "take 5 echo_related"]
  from t l d have "\<exists>ps. length ps = 5 \<and> distinct ps \<and>
      select_related last_first (JArr echo_related) = Inr (JArr (map (\<lambda>p. echo_related ! p) ps)) \<and>
      distinct (map (\<lambda>p. echo_related ! p) ps)"
    by blast
  moreover from u s have
    "select_related last_first (JArr (take 5 echo_related)) = Inr (JArr (take 5 echo_related))"
    by blast
  ultimately show ?thesis using l d sampler_ok_last_first by blast
qed

text \<open>
  The claim as stated, no duplicates for every returned list, fails when the returned
  list itself repeats an entry: positions are sampled, not values.
\<close>

theorem sample_related_positions_counterexample:
  "fst (fetch_artist_metadata str_of_text (table_catalog twin_table) last_first ''Echo'') = Some twin_metadata
   \<and> length (similar twin_metadata) = 5
   \<and> \<not> distinct (similar twin_metadata)
   \<and> select_related last_first
       (JArr [artist_entry ''11'' ''R1'', artist_entry ''11'' ''R1'', artist_entry ''11'' ''R1'',
              artist_entry ''11'' ''R1'', artist_entry ''11'' ''R1'', artist_entry ''11'' ''R1''])
     = Inr (JArr [artist_entry ''11'' ''R1'', artist_entry ''11'' ''R1'', artist_entry ''11'' ''R1'',
              artist_entry ''11'' ''R1'', artist_entry ''11'' ''R1''])
   \<and> \<not> distinct [artist_entry ''11'' ''R1'', artist_entry ''11'' ''R1'', artist_entry ''11'' ''R1'',
              artist_entry ''11'' ''R1'', artist_entry ''11'' ''R1'']"
proof -
  have 1: "fst (fetch_artist_metadata str_of_text (table_catalog twin_table) last_first ''Echo'') = Some twin_metadata"
    by code_simp
  have 2: "select_related last_first
       (JArr [artist_entry ''11'' ''R1'', artist_entry ''11'' ''R1'', artist_entry ''11'' ''R1'',
              artist_entry ''11'' ''R1'', artist_entry ''11'' ''R1'', artist_entry ''11'' ''R1''])
     = Inr (JArr [artist_entry ''11'' ''R1'', artist_entry ''11'' ''R1'', artist_entry ''11'' ''R1'',
              artist_entry ''11'' ''R1'', artist_entry ''11'' ''R1''])"
    by code_simp
  from 1 2 show ?thesis by (simp add: twin_metadata_def)
qed

section \<open>Answers with empty lists\<close>

lemma titles_of_ok: "list_all has_title ts \<Longrightarrow> \<exists>vs. titles_of ts = Inr vs"
proof (induction ts)
  case Nil
  then show ?case by simp
next
  case (Cons t ts)
  then obtain v vs where "subscript_key t ''title'' = Inr v" "titles_of ts = Inr vs"
    by (cases "subscript_key t ''title''") (auto simp: has_title_def)
  then show ?case by simp
qed

lemma track_list_ok_titles:
  assumes "track_list_ok answer"
  shows "\<exists>vs. exchange_titles (u, answer) = Inr vs"
proof -
  from assms obtain ts where
    t: "exchange_data (u, answer) = Inr (JArr ts)" "list_all has_title ts"
    by (auto simp: track_list_ok_def exchange_data_def split: sum.splits json.splits)
  from titles_of_ok [OF t(2)] obtain vs where "titles_of ts = Inr vs" by blast
  with t(1) show ?thesis by (simp add: exchange_titles_def track_titles_def)
qed

lemma artist_list_ok_data:
  assumes "artist_list_ok answer"
  shows "\<exists>rs. exchange_data (u, answer) = Inr (JArr rs) \<and> list_all is_artist rs"
  using assms
  by (auto simp: artist_list_ok_def exchange_data_def split: sum.splits json.splits)

lemma fetch_similar_succeeds:
  assumes "list_all is_artist rels"
    and "\<forall>tr r_id. track_list_ok (cat tr (top_url py_str r_id ''2''))"
  shows "\<exists>infos tr'. fetch_similar py_str cat rels acc tr = (Inr infos, tr')"
  using assms(1)
proof (induction rels arbitrary: acc tr)
  case Nil
  then show ?case by simp
next
  case (Cons r rest)
  from Cons.prems obtain r_id nm where
    k: "subscript_key r ''id'' = Inr r_id" "subscript_key r ''name'' = Inr nm"
    by (cases "subscript_key r ''id''"; cases "subscript_key r ''name''") (auto simp: is_artist_def)
  from assms(2) have "track_list_ok (cat tr (top_url py_str r_id ''2''))" by blast
  from track_list_ok_titles [OF this] obtain vs where
    v: "exchange_titles (top_url py_str r_id ''2'', cat tr (top_url py_str r_id ''2'')) = Inr vs"
    by blast
  from Cons.prems have "list_all is_artist rest" by simp
  from Cons.IH [OF this] k v show ?case by (simp add: fetch_similar_Cons)
qed

lemma select_related_artists:
  assumes "sampler_ok rng" and "list_all is_artist rs"
  shows "\<exists>ys. select_related rng (JArr rs) = Inr (JArr ys) \<and> list_all is_artist ys"
proof (cases "5 < length rs")
  case True
  from sample_positions [OF assms(1) True] have "\<forall>p \<in> set (rng (length rs) 5). p < length rs"
    by simp
  with assms(2) have "list_all is_artist (map (\<lambda>p. rs ! p) (rng (length rs) 5))"
    by (auto simp: list_all_iff)
  with True show ?thesis by (simp add: select_related_list)
next
  case False
  with assms(2) show ?thesis by (simp add: select_related_list)
qed

lemma fetch_succeeds:
  assumes "sampler_ok rng"
    and "cat [] (search_url q) = Inr response" and "first_artist response = Inr (aid, nm)"
    and "\<forall>tr. track_list_ok (cat tr (top_url py_str aid ''4''))"
    and "\<forall>tr. artist_list_ok (cat tr (related_url py_str aid))"
    and "\<forall>tr r_id. track_list_ok (cat tr (top_url py_str r_id ''2''))"
  shows "\<exists>md tr. fetch_artist_metadata py_str cat rng q = (Some md, tr) \<and> source_artist md = nm"
proof -
  from first_artist_found [OF assms(3)] obtain found where
    f: "dict_get response ''data'' JNull = Inr found" "truthy found" by blast
  define x1 :: exchange where "x1 = (search_url q, Inr response)"
  define x2 where "x2 = (top_url py_str aid ''4'', cat [x1] (top_url py_str aid ''4''))"
  define x3 where "x3 = (related_url py_str aid, cat [x1, x2] (related_url py_str aid))"
  note unf = fetch_try_found [OF assms(2) f assms(3) x1_def x2_def x3_def, of rng]
  from assms(4) have "track_list_ok (snd x2)" by (simp add: x2_def)
  from track_list_ok_titles [OF this, of "fst x2"] obtain src where
    src: "exchange_titles x2 = Inr src" by auto
  from assms(5) have "artist_list_ok (snd x3)" by (simp add: x3_def)
  from artist_list_ok_data [OF this, of "fst x3"] obtain rs where
    rs: "exchange_data x3 = Inr (JArr rs)" "list_all is_artist rs" by auto
  from select_related_artists [OF assms(1) rs(2)] obtain ys where
    ys: "select_related rng (JArr rs) = Inr (JArr ys)" "list_all is_artist ys" by blast
  from fetch_similar_succeeds [OF ys(2) assms(6)] obtain infos tr4 where
    l: "fetch_similar py_str cat ys [] [x1, x2, x3] = (Inr infos, tr4)" by blast
  from unf src rs(1) ys(1) l
  have "fetch_try py_str cat rng q =
      (Inr (Some \<lparr>source_artist = nm, source_tracks = src, similar = infos\<rparr>), tr4)"
    by simp
  then show ?thesis by (simp add: fetch_artist_metadata_def)
qed

lemma fetch_empty_lists:
  assumes "fetch_artist_metadata py_str cat rng q = (Some md, tr)"
  shows "(exchange_data (tr ! 1) = Inr (JArr []) \<longrightarrow> source_tracks md = []) \<and>
     (exchange_data (tr ! 2) = Inr (JArr []) \<longrightarrow> similar md = []) \<and>
     (\<forall>i < length (similar md).
        exchange_data (tr ! (3 + i)) = Inr (JArr []) \<longrightarrow> tracks (similar md ! i) = [])"
proof (intro conjI impI allI)
  assume "exchange_data (tr ! 1) = Inr (JArr [])"
  with fetch_track_lengths [OF assms] show "source_tracks md = []" by auto
next
  assume e: "exchange_data (tr ! 2) = Inr (JArr [])"
  from fetch_kept_names [OF assms e] show "similar md = []"
    by (auto simp: select_related_list)
next
  fix i assume "i < length (similar md)" "exchange_data (tr ! (3 + i)) = Inr (JArr [])"
  with fetch_track_lengths [OF assms] show "tracks (similar md ! i) = []" by auto
qed

text \<open>
  Claim C9. Take a sampler that keeps its contract, an artist found by the search, and
  a service whose answers to the top-tracks and related-artists requests have the
  expected shape, with lists of any length, the empty list included. Then the call
  returns metadata, not \<open>None\<close>; and where the top-tracks list, the related list or
  the track list of a related artist came back empty, the matching sequence of the
  metadata is empty.
\<close>

theorem empty_results_are_not_failures:
  assumes "sampler_ok rng"
    and "cat [] (search_url q) = Inr response" and "first_artist response = Inr (aid, nm)"
    and "\<forall>tr. track_list_ok (cat tr (top_url py_str aid ''4''))"
    and "\<forall>tr. artist_list_ok (cat tr (related_url py_str aid))"
    and "\<forall>tr r_id. track_list_ok (cat tr (top_url py_str r_id ''2''))"
  shows "\<exists>md tr. fetch_artist_metadata py_str cat rng q = (Some md, tr) \<and> source_artist md = nm \<and>
     (exchange_data (tr ! 1) = Inr (JArr []) \<longrightarrow> source_tracks md = []) \<and>
     (exchange_data (tr ! 2) = Inr (JArr []) \<longrightarrow> similar md = []) \<and>
     (\<forall>i < length (similar md).
        exchange_data (tr ! (3 + i)) = Inr (JArr []) \<longrightarrow> tracks (similar md ! i) = [])"
proof -
  from fetch_succeeds [OF assms] obtain md tr where
    f: "fetch_artist_metadata py_str cat rng q = (Some md, tr)" "source_artist md = nm" by blast
  from fetch_empty_lists [OF f(1)] f show ?thesis by blast
qed

lemma top2_not_search: "top_url str_of_text r_id ''2'' \<noteq> ''https://api.deezer.com/search/artist?q=Quiet''"
    by (simp add: top_url_def)

lemma top2_last: "last (top_url str_of_text r_id ''2'') = CHR ''2''" by (simp add: top_url_def)

lemma top2_not_related: "top_url str_of_text r_id ''2'' \<noteq> ''https://api.deezer.com/artist/7/related?limit=20''"
proof
  assume "top_url str_of_text r_id ''2'' = ''https://api.deezer.com/artist/7/related?limit=20''"
  then have "last (top_url str_of_text r_id ''2'') = last ''https://api.deezer.com/artist/7/related?limit=20''"
    by (rule arg_cong)
  then show False by (simp add: top2_last)
qed

lemma sparse_top_limit_2:
  "sparse_catalog tr (top_url str_of_text r_id ''2'') = data_of []"
  using top2_not_search top2_not_related by (simp add: sparse_catalog_def)

theorem empty_results_are_not_failures_witness:
  "sampler_ok last_first
   \<and> sparse_catalog [] (search_url ''Quiet'') = data_of [artist_entry ''7'' ''Quiet'']
   \<and> fst (fetch_artist_metadata str_of_text sparse_catalog last_first ''Quiet'') = Some sparse_metadata
   \<and> source_tracks sparse_metadata = []"
proof -
  let ?r = "fetch_artist_metadata str_of_text sparse_catalog last_first ''Quiet''"
  have 1: "sparse_catalog [] (search_url ''Quiet'') = Inr (JObj [(''data'', JArr [artist_entry ''7'' ''Quiet''])])"
    by (simp add: sparse_catalog_def search_url_def data_of_def)
  have 2: "first_artist (JObj [(''data'', JArr [artist_entry ''7'' ''Quiet''])]) = Inr (JStr ''7'', JStr ''Quiet'')"
    by (simp add: first_artist_def artist_entry_def)
  have 3: "\<forall>tr. track_list_ok (sparse_catalog tr (top_url str_of_text (JStr ''7'') ''4''))"
    by (simp add: sparse_catalog_def top_url_def data_of_def track_list_ok_def)
  have 4: "\<forall>tr. artist_list_ok (sparse_catalog tr (related_url str_of_text (JStr ''7'')))"
    by (simp add: sparse_catalog_def related_url_def data_of_def artist_list_ok_def is_artist_def
          artist_entry_def)
  have 5: "\<forall>tr r_id. track_list_ok (sparse_catalog tr (top_url str_of_text r_id ''2''))"
    by (simp add: sparse_top_limit_2 data_of_def track_list_ok_def)
  from empty_results_are_not_failures [OF sampler_ok_last_first 1 2 3 4 5]
  obtain md tr where
    m: "?r = (Some md, tr)"
    and e: "exchange_data (tr ! 1) = Inr (JArr []) \<longrightarrow> source_tracks md = []"
    by blast
  have v: "fst ?r = Some sparse_metadata" by code_simp
  have t: "exchange_data (snd ?r ! 1) = Inr (JArr [])" by code_simp
  from m v have md: "md = sparse_metadata" by simp
  from m t have "exchange_data (tr ! 1) = Inr (JArr [])" by simp
  with e md have s: "source_tracks sparse_metadata = []" by simp
  have d: "sparse_catalog [] (search_url ''Quiet'') = data_of [artist_entry ''7'' ''Quiet'']"
    using 1 by (simp only: data_of_def)
  from sampler_ok_last_first d v s show ?thesis by blast
qed

section \<open>The pipeline\<close>

lemma stage_input_request:
  "stage_input (agent_request self input_context, answer) = format_value input_context"
  by (simp add: stage_input_def agent_request_def agent_messages_def)

lemma run_stages_eq:
  assumes "run_stages cl ctx = (evs, cs)"
  shows "length cs = 4 \<and>
     map fst cs = [agent_request agent1 (PyStr ctx), agent_request agent2 (PyStr ctx),
                   agent_request agent3 (call_output (cs ! 1)),
                   agent_request agent4 (call_output (cs ! 2))] \<and>
     (\<forall>i < 4. snd (cs ! i) = cl (take i cs) (fst (cs ! i))) \<and>
     evs = [StMarkdown (call_output (cs ! 0)), StMarkdown (call_output (cs ! 1)),
            StMarkdown (call_output (cs ! 2)), StSuccess discovery_label,
            StMarkdown (call_output (cs ! 3))]"
proof -
  define c1 where "c1 = (agent_request agent1 (PyStr ctx), cl [] (agent_request agent1 (PyStr ctx)))"
  define c2 where "c2 = (agent_request agent2 (PyStr ctx), cl [c1] (agent_request agent2 (PyStr ctx)))"
  define c3 where "c3 = (agent_request agent3 (call_output c2),
                         cl [c1, c2] (agent_request agent3 (call_output c2)))"
  define c4 where "c4 = (agent_request agent4 (call_output c3),
                         cl [c1, c2, c3] (agent_request agent4 (call_output c3)))"
  have "run_stages cl ctx =
      ([StMarkdown (call_output c1), StMarkdown (call_output c2), StMarkdown (call_output c3),
        StSuccess discovery_label, StMarkdown (call_output c4)], [c1, c2, c3, c4])"
    by (simp add: run_stages_def execute_eq c1_def c2_def c3_def c4_def)
  with assms have e: "cs = [c1, c2, c3, c4]"
    "evs = [StMarkdown (call_output c1), StMarkdown (call_output c2), StMarkdown (call_output c3),
        StSuccess discovery_label, StMarkdown (call_output c4)]"
    by simp_all
  have s: "\<forall>i < 4. snd (cs ! i) = cl (take i cs) (fst (cs ! i))"
  proof (intro allI impI)
    fix i :: nat assume "i < 4"
    then consider "i = 0" | "i = 1" | "i = 2" | "i = 3" by linarith
    then show "snd (cs ! i) = cl (take i cs) (fst (cs ! i))"
      by cases (simp_all add: e c1_def c2_def c3_def c4_def numeral_2_eq_2 numeral_3_eq_3)
  qed
  have m: "map fst cs = [agent_request agent1 (PyStr ctx), agent_request agent2 (PyStr ctx),
                   agent_request agent3 (call_output (cs ! 1)),
                   agent_request agent4 (call_output (cs ! 2))]"
    by (simp add: e) (simp add: c1_def c2_def c3_def c4_def)
  from e m s show ?thesis by simp
qed

lemma main_found:
  assumes "hf_token \<noteq> []" and "run_btn" and "user_query \<noteq> []"
    and "fetch_artist_metadata py_str cat rng user_query = (Some md, tr)"
  shows "main py_str cat rng inference_client hf_token run_btn user_query =
     (case build_context py_str md of
        Inl e \<Rightarrow>
          \<lparr>ui_events = [StStatus status_label,
                        StSuccess (identified_head @ py_str (source_artist md) @ ''.''),
                        StatusUpdate status_complete_label ''complete''],
           catalog_requests = tr, generation_calls = [], outcome = Raised e\<rparr>
      | Inr ctx \<Rightarrow>
          \<lparr>ui_events = [StStatus status_label,
                        StSuccess (identified_head @ py_str (source_artist md) @ ''.''),
                        StatusUpdate status_complete_label ''complete'']
                       @ fst (run_stages (inference_client MODEL_REPO_ID hf_token) ctx),
           catalog_requests = tr,
           generation_calls = snd (run_stages (inference_client MODEL_REPO_ID hf_token) ctx),
           outcome = Returned\<rparr>)"
  using assms by (simp add: main_def Let_def split: sum.splits prod.splits)

lemma main_not_found:
  assumes "hf_token \<noteq> []" and "run_btn" and "user_query \<noteq> []"
    and "fetch_artist_metadata py_str cat rng user_query = (None, tr)"
  shows "main py_str cat rng inference_client hf_token run_btn user_query =
     \<lparr>ui_events = [StStatus status_label, StatusUpdate status_error_label ''error'',
                   StError artist_not_found, StStop],
      catalog_requests = tr, generation_calls = [], outcome = Stopped\<rparr>"
  using assms by (simp add: main_def)

lemma stages_result:
  assumes "hf_token \<noteq> []" and "run_btn" and "user_query \<noteq> []"
    and "fetch_artist_metadata py_str cat rng user_query = (Some md, tr)"
    and "build_context py_str md = Inr ctx"
    and "r = main py_str cat rng inference_client hf_token run_btn user_query"
    and "cs = generation_calls r"
  shows "outcome r = Returned \<and> length cs = 4 \<and>
     map fst cs = [agent_request agent1 (PyStr ctx), agent_request agent2 (PyStr ctx),
                   agent_request agent3 (call_output (cs ! 1)),
                   agent_request agent4 (call_output (cs ! 2))] \<and>
     map stage_input cs =
       [ctx, ctx, format_value (call_output (cs ! 1)), format_value (call_output (cs ! 2))] \<and>
     (\<forall>i < 4. snd (cs ! i) = inference_client MODEL_REPO_ID hf_token (take i cs) (fst (cs ! i))) \<and>
     ui_events r =
       [StStatus status_label,
        StSuccess (identified_head @ py_str (source_artist md) @ ''.''),
        StatusUpdate status_complete_label ''complete'',
        StMarkdown (call_output (cs ! 0)), StMarkdown (call_output (cs ! 1)),
        StMarkdown (call_output (cs ! 2)), StSuccess discovery_label,
        StMarkdown (call_output (cs ! 3))]"
proof -
  let ?cl = "inference_client MODEL_REPO_ID hf_token"
  obtain evs cs' where rs: "run_stages ?cl ctx = (evs, cs')" by (cases "run_stages ?cl ctx")
  from main_found [OF assms(1-4), of inference_client] assms(5,6) rs
  have r: "r = \<lparr>ui_events = [StStatus status_label,
                        StSuccess (identified_head @ py_str (source_artist md) @ ''.''),
                        StatusUpdate status_complete_label ''complete''] @ evs,
           catalog_requests = tr, generation_calls = cs', outcome = Returned\<rparr>"
    by simp
  with assms(7) have c: "cs = cs'" by simp
  note q = run_stages_eq [OF rs [folded c]]
  from q have m: "map fst cs = [agent_request agent1 (PyStr ctx), agent_request agent2 (PyStr ctx),
                   agent_request agent3 (call_output (cs ! 1)),
                   agent_request agent4 (call_output (cs ! 2))]" by blast
  have "stage_input x = stage_input (fst x, snd x)" for x :: gen_call by simp
  have si: "map stage_input cs = map (\<lambda>c. stage_input (fst c, snd c)) cs" by simp
  from q have l: "length cs = 4" by blast
  then obtain c1 c2 c3 c4 where cs4: "cs = [c1, c2, c3, c4]"
    by (auto simp: length_Suc_conv numeral_eq_Suc)
  with m have "fst c1 = agent_request agent1 (PyStr ctx)" "fst c2 = agent_request agent2 (PyStr ctx)"
    "fst c3 = agent_request agent3 (call_output c2)" "fst c4 = agent_request agent4 (call_output c3)"
    by simp_all
  then have "stage_input c1 = format_value (PyStr ctx)" "stage_input c2 = format_value (PyStr ctx)"
    "stage_input c3 = format_value (call_output c2)"
    "stage_input c4 = format_value (call_output c3)"
    by (metis prod.collapse stage_input_request)+
  with cs4 have inp: "map stage_input cs =
      [ctx, ctx, format_value (call_output (cs ! 1)), format_value (call_output (cs ! 2))]"
    by simp
  from q r inp show ?thesis by simp
qed

section \<open>Claims about the pipeline\<close>

text \<open>
  Claim C4 (amended). Take a run with a token, the button pressed and a query, in which
  the fetch returned metadata and the context was built from it. Then the run returns
  normally after exactly four generation calls, made one after the other: the requests are
  those of agents 1 to 4; agents 1 and 2 are both given the built context, agent 3 is
  given the output of agent 2 as it is, agent 4 the output of agent 3; each answer is the
  client's on the calls made before; and the four outputs are shown in this order.
\<close>

theorem stages_chain:
  assumes "hf_token \<noteq> []" and "run_btn" and "user_query \<noteq> []"
    and "fetch_artist_metadata py_str cat rng user_query = (Some md, tr)"
    and "build_context py_str md = Inr ctx"
    and "r = main py_str cat rng inference_client hf_token run_btn user_query"
    and "cs = generation_calls r"
  shows "outcome r = Returned \<and> length cs = 4 \<and>
     map fst cs = [agent_request agent1 (PyStr ctx), agent_request agent2 (PyStr ctx),
                   agent_request agent3 (call_output (cs ! 1)),
                   agent_request agent4 (call_output (cs ! 2))] \<and>
     map stage_input cs =
       [ctx, ctx, format_value (call_output (cs ! 1)), format_value (call_output (cs ! 2))] \<and>
     (\<forall>i < 4. snd (cs ! i) = inference_client MODEL_REPO_ID hf_token (take i cs) (fst (cs ! i))) \<and>
     ui_events r =
       [StStatus status_label,
        StSuccess (identified_head @ py_str (source_artist md) @ ''.''),
        StatusUpdate status_complete_label ''complete'',
        StMarkdown (call_output (cs ! 0)), StMarkdown (call_output (cs ! 1)),
        StMarkdown (call_output (cs ! 2)), StSuccess discovery_label,
        StMarkdown (call_output (cs ! 3))]"
  using assms by (rule stages_result)

theorem stages_chain_witness:
  "fst (fetch_artist_metadata str_of_text (table_catalog echo_table) last_first ''Echo'') = Some echo_metadata
   \<and> \<not> isl (build_context str_of_text echo_metadata)
   \<and> outcome (main str_of_text (table_catalog echo_table) last_first echo_service ''token'' True ''Echo'')
       = Returned
   \<and> length (generation_calls
        (main str_of_text (table_catalog echo_table) last_first echo_service ''token'' True ''Echo'')) = 4"
proof -
  let ?f = "fetch_artist_metadata str_of_text (table_catalog echo_table) last_first ''Echo''"
  have v: "fst ?f = Some echo_metadata" by code_simp
  then have f: "?f = (Some echo_metadata, snd ?f)" by (metis prod.collapse)
  have b: "\<not> isl (build_context str_of_text echo_metadata)" by code_simp
  then obtain ctx where c: "build_context str_of_text echo_metadata = Inr ctx"
    by (cases "build_context str_of_text echo_metadata") auto
  have t: "''token'' \<noteq> []" and q: "''Echo'' \<noteq> []" by simp_all
  from stages_chain [OF t TrueI q f c refl refl, of echo_service] v b show ?thesis by blast
qed

text \<open>
  The claim as stated, for every run in which the fetch returned metadata, fails when
  a title in the metadata is not a string: \<open>', '.join\<close> raises \<open>TypeError\<close> while
  the context is built, nothing catches it, and no agent runs.
\<close>

theorem stages_chain_counterexample:
  "fst (fetch_artist_metadata str_of_text (table_catalog untitled_table) last_first ''Echo'')
     = Some untitled_metadata
   \<and> outcome (main str_of_text (table_catalog untitled_table) last_first echo_service ''token'' True ''Echo'')
       = Raised TypeError
   \<and> generation_calls
        (main str_of_text (table_catalog untitled_table) last_first echo_service ''token'' True ''Echo'') = []"
proof -
  let ?f = "fetch_artist_metadata str_of_text (table_catalog untitled_table) last_first ''Echo''"
  have v: "fst ?f = Some untitled_metadata" by code_simp
  then have f: "?f = (Some untitled_metadata, snd ?f)" by (metis prod.collapse)
  have b: "build_context str_of_text untitled_metadata = Inl TypeError"
    by (simp add: build_context_def untitled_metadata_def py_join_def)
  have t: "''token'' \<noteq> []" and q: "''Echo'' \<noteq> []" by simp_all
  from main_found [OF t TrueI q f, of echo_service] b v show ?thesis by simp
qed

text \<open>
  Claim C5. In a run with a token, the button pressed and a query: when the fetch
  returns \<open>None\<close>, no generation call is made, the run is stopped, and what is shown
  is the status set to error and the error message that the artist was not found.
  That message and the stop occur in no run in which the fetch returned metadata.
\<close>

theorem no_agent_without_metadata:
  assumes "hf_token \<noteq> []" and "run_btn" and "user_query \<noteq> []"
    and "r = main py_str cat rng inference_client hf_token run_btn user_query"
  shows "(fst (fetch_artist_metadata py_str cat rng user_query) = None \<longrightarrow>
        generation_calls r = [] \<and> outcome r = Stopped \<and>
        ui_events r = [StStatus status_label, StatusUpdate status_error_label ''error'',
                       StError artist_not_found, StStop]) \<and>
     (fst (fetch_artist_metadata py_str cat rng user_query) \<noteq> None \<longrightarrow>
        outcome r \<noteq> Stopped \<and> StError artist_not_found \<notin> set (ui_events r) \<and>
        StStop \<notin> set (ui_events r))"
proof (intro conjI impI)
  assume n: "fst (fetch_artist_metadata py_str cat rng user_query) = None"
  then have "fetch_artist_metadata py_str cat rng user_query =
      (None, snd (fetch_artist_metadata py_str cat rng user_query))"
    by (metis prod.collapse)
  from main_not_found [OF assms(1-3) this, of inference_client] assms(4)
  show "generation_calls r = []" "outcome r = Stopped"
    "ui_events r = [StStatus status_label, StatusUpdate status_error_label ''error'',
                       StError artist_not_found, StStop]"
    by simp_all
next
  assume "fst (fetch_artist_metadata py_str cat rng user_query) \<noteq> None"
  then obtain md where "fetch_artist_metadata py_str cat rng user_query =
      (Some md, snd (fetch_artist_metadata py_str cat rng user_query))"
    by (metis prod.collapse not_None_eq)
  note f = this
  show "outcome r \<noteq> Stopped" "StError artist_not_found \<notin> set (ui_events r)" "StStop \<notin> set (ui_events r)"
  proof (atomize (full), cases "build_context py_str md")
    case (Inl e)
    with main_found [OF assms(1-3) f, of inference_client] assms(4)
    show "outcome r \<noteq> Stopped \<and> StError artist_not_found \<notin> set (ui_events r) \<and> StStop \<notin> set (ui_events r)"
      by simp
  next
    case (Inr ctx)
    from stages_result [OF assms(1-3) f Inr assms(4) refl]
    show "outcome r \<noteq> Stopped \<and> StError artist_not_found \<notin> set (ui_events r) \<and> StStop \<notin> set (ui_events r)"
      by simp
  qed
qed

theorem no_agent_without_metadata_witness:
  "fst (fetch_artist_metadata str_of_text (table_catalog zzyzx_table) last_first ''Zzyzx123'') = None
   \<and> generation_calls
        (main str_of_text (table_catalog zzyzx_table) last_first echo_service ''token'' True ''Zzyzx123'') = []
   \<and> outcome
        (main str_of_text (table_catalog zzyzx_table) last_first echo_service ''token'' True ''Zzyzx123'')
       = Stopped
   \<and> fst (fetch_artist_metadata str_of_text (table_catalog echo_table) last_first ''Echo'') \<noteq> None
   \<and> StError artist_not_found \<notin> set (ui_events
        (main str_of_text (table_catalog echo_table) last_first echo_service ''token'' True ''Echo''))"
proof -
  have n: "fst (fetch_artist_metadata str_of_text (table_catalog zzyzx_table) last_first ''Zzyzx123'') = None"
    by code_simp
  have s: "fst (fetch_artist_metadata str_of_text (table_catalog echo_table) last_first ''Echo'') = Some echo_metadata"
    by code_simp
  have t: "''token'' \<noteq> []" and q: "''Zzyzx123'' \<noteq> []" and q': "''Echo'' \<noteq> []" by simp_all
  note a = no_agent_without_metadata [OF t TrueI q refl,
      of str_of_text "table_catalog zzyzx_table" last_first echo_service]
  note b = no_agent_without_metadata [OF t TrueI q' refl,
      of str_of_text "table_catalog echo_table" last_first echo_service]
  from a n b s show ?thesis by simp
qed

text \<open>
  Claim C7. The context is a function of the metadata alone. Take two runs, with any
  catalogs, samplers, generation services, tokens and queries, in which the fetch
  returned the same metadata. Either the same context is built in both and handed to
  agents 1 and 2 of both runs, or building it raises the same exception in both and
  neither run calls an agent.
\<close>

theorem context_from_metadata_only:
  assumes "token1 \<noteq> []" and "token2 \<noteq> []" and "query1 \<noteq> []" and "query2 \<noteq> []"
    and "fst (fetch_artist_metadata py_str cat1 rng1 query1) = Some md"
    and "fst (fetch_artist_metadata py_str cat2 rng2 query2) = Some md"
    and "r1 = main py_str cat1 rng1 service1 token1 True query1"
    and "r2 = main py_str cat2 rng2 service2 token2 True query2"
  shows "(\<exists>ctx. build_context py_str md = Inr ctx \<and>
          map stage_input (take 2 (generation_calls r1)) = [ctx, ctx] \<and>
          map stage_input (take 2 (generation_calls r2)) = [ctx, ctx]) \<or>
     (\<exists>e. build_context py_str md = Inl e \<and>
          outcome r1 = Raised e \<and> outcome r2 = Raised e \<and>
          generation_calls r1 = [] \<and> generation_calls r2 = [])"
proof -
  from assms(5) have f1: "fetch_artist_metadata py_str cat1 rng1 query1 =
      (Some md, snd (fetch_artist_metadata py_str cat1 rng1 query1))"
    by (metis prod.collapse)
  from assms(6) have f2: "fetch_artist_metadata py_str cat2 rng2 query2 =
      (Some md, snd (fetch_artist_metadata py_str cat2 rng2 query2))"
    by (metis prod.collapse)
  show ?thesis
  proof (cases "build_context py_str md")
    case (Inl e)
    with main_found [OF assms(1) TrueI assms(3) f1, of service1]
      main_found [OF assms(2) TrueI assms(4) f2, of service2] assms(7,8)
    show ?thesis by simp
  next
    case (Inr ctx)
    from stages_result [OF assms(1) TrueI assms(3) f1 Inr assms(7) refl]
    have 1: "map stage_input (generation_calls r1) =
        [ctx, ctx, format_value (call_output (generation_calls r1 ! 1)),
         format_value (call_output (generation_calls r1 ! 2))]"
      by blast
    from stages_result [OF assms(2) TrueI assms(4) f2 Inr assms(8) refl]
    have 2: "map stage_input (generation_calls r2) =
        [ctx, ctx, format_value (call_output (generation_calls r2 ! 1)),
         format_value (call_output (generation_calls r2 ! 2))]"
      by blast
    from 1 have "map stage_input (take 2 (generation_calls r1)) = [ctx, ctx]"
      by (simp add: take_map [symmetric] numeral_2_eq_2)
    moreover from 2 have "map stage_input (take 2 (generation_calls r2)) = [ctx, ctx]"
      by (simp add: take_map [symmetric] numeral_2_eq_2)
    ultimately have "build_context py_str md = Inr ctx \<and>
          map stage_input (take 2 (generation_calls r1)) = [ctx, ctx] \<and>
          map stage_input (take 2 (generation_calls r2)) = [ctx, ctx]"
      using Inr by simp
    then show ?thesis by (intro disjI1 exI [of _ ctx])
  qed
qed

theorem context_from_metadata_only_witness:
  "fst (fetch_artist_metadata str_of_text (table_catalog echo_table) last_first ''Echo'') = Some echo_metadata
   \<and> map stage_input (take 2 (generation_calls
        (main str_of_text (table_catalog echo_table) last_first echo_service ''token'' True ''Echo'')))
     = map stage_input (take 2 (generation_calls
        (main str_of_text (table_catalog echo_table) last_first failing_service ''other'' True ''Echo'')))"
proof -
  have s: "fst (fetch_artist_metadata str_of_text (table_catalog echo_table) last_first ''Echo'') = Some echo_metadata"
    by code_simp
  have t: "''token'' \<noteq> []" and t': "''other'' \<noteq> []" and q: "''Echo'' \<noteq> []" by simp_all
  from context_from_metadata_only [OF t t' q q s s refl refl, of echo_service failing_service] s
  show ?thesis by auto
qed

end
